theory Spec2Isabelle
  imports Complex_Main "HOL-Library.Product_Lexorder"
begin

section \<open>Data model of \<^verbatim>\<open>horary_engine/perfection_core.py\<close>\<close>

text \<open>
  Python floats are modelled by \<^typ>\<open>real\<close>: comparisons, floor, remainder and division
  are the exact ones, without rounding, and no NaN or infinite position value exists.
  The one infinite value the source builds itself, \<^verbatim>\<open>float('inf')\<close> in the sort and
  selection keys, is the constructor \<open>PInf\<close> below.
\<close>

text \<open>
  Modelled from the spec: the module \<^verbatim>\<open>models\<close> (the enums \<^verbatim>\<open>Planet\<close>, \<^verbatim>\<open>Aspect\<close>,
  \<^verbatim>\<open>SolarCondition\<close> and the position class) is not part of the sources. The spec gives
  seven classical bodies, the ones the source's loops name, and five aspect kinds, "each
  carrying its target separation in degrees": conjunction 0, sextile 60, square 90,
  trine 120, opposition 180.
\<close>

datatype planet = SUN | MOON | MERCURY | VENUS | MARS | JUPITER | SATURN

datatype aspect = CONJUNCTION | SEXTILE | SQUARE | TRINE | OPPOSITION

fun degrees :: "aspect \<Rightarrow> real" where
  "degrees CONJUNCTION = 0"
| "degrees SEXTILE = 60"
| "degrees SQUARE = 90"
| "degrees TRINE = 120"
| "degrees OPPOSITION = 180"

datatype event_type =
    DIRECT | DIRECT_PENALIZED | HOUSE_PLACEMENT | TRANSLATION | COLLECTION
  | PROHIBITION | ABSCISSION | REFRANATION | FRUSTRATION | COMBUSTION_VETO

text \<open>
  The dictionaries the detector hands around: an aspect leg
  (\<^verbatim>\<open>{'aspect', 'timing', 'applying' | 'separating', 'target'}\<close>), the result of
  \<^verbatim>\<open>_find_earliest_application\<close> (\<^verbatim>\<open>{'target', 'aspect', 'timing'}\<close>), and a reception
  summary, whose keys may be absent or hold \<^verbatim>\<open>None\<close> (both \<open>None\<close> here).
\<close>

datatype leg_kind = Applying | Separating

record leg =
  leg_aspect :: aspect
  leg_timing :: real
  leg_kind :: leg_kind
  leg_target :: planet

record reception =
  rec_type :: "string option"
  rec_mutual :: "string option"
  rec_one_way :: "string list option"

datatype meta_value =
    MPlanet planet
  | MLeg leg
  | MStr string
  | MNum real

record perfection_event =
  event_type :: event_type
  primary_pair :: "planet \<times> planet"
  mediator :: "planet option"
  aspect :: "aspect option"
  reception_data :: "reception option"
  exact_in_days :: "real option"
  favorable :: bool
  confidence :: "int option"
  challenges :: "string list"
  quality_tags :: "string list"
  metadata :: "(string \<times> meta_value) list"

text \<open>
  The field \<^verbatim>\<open>reason\<close>, a sentence rendered for the reader from the display names of
  the absent module \<^verbatim>\<open>models\<close> and from formatted floats, is left out: no function
  modelled here reads it. \<^verbatim>\<open>metadata\<close> is a dict, written as the list of its items;
  \<^verbatim>\<open>len(metadata)\<close> counts its keys.
\<close>

definition metadata_len :: "perfection_event \<Rightarrow> nat" where
  "metadata_len e = length (remdups (map fst (metadata e)))"

text \<open>
  The dataclass constructor with its defaults: no mediator, aspect, reception or timing,
  favorable, no confidence, empty lists and metadata.
\<close>

definition PerfectionEvent :: "event_type \<Rightarrow> planet \<times> planet \<Rightarrow> perfection_event" where
  "PerfectionEvent et pp =
     \<lparr>event_type = et, primary_pair = pp, mediator = None, aspect = None,
      reception_data = None, exact_in_days = None, favorable = True, confidence = None,
      challenges = [], quality_tags = [], metadata = []\<rparr>"

subsection \<open>\<^verbatim>\<open>PerfectionEvent.event_key\<close>\<close>

text \<open>
  Python's \<^verbatim>\<open>round(x, 4)\<close>: the nearest multiple of \<open>10\<^sup>-\<^sup>4\<close>, an exact tie going to
  the even one.
\<close>

definition round_half_even :: "real \<Rightarrow> int" where
  "round_half_even x =
     (let f = \<lfloor>x\<rfloor>; d = x - of_int f
      in if d < 1 / 2 then f
         else if d > 1 / 2 then f + 1
         else if even f then f else f + 1)"

definition py_round4 :: "real \<Rightarrow> real" where
  "py_round4 x = of_int (round_half_even (x * 10000)) / 10000"

text \<open>
  \<^verbatim>\<open>timing_key = round(self.exact_in_days, 4) if self.exact_in_days else 0.0\<close>: the
  condition is Python truthiness, false for \<^verbatim>\<open>None\<close> and for zero. The key is a string
  in the source; the float printed in it is the pair of the rounded value and whether it
  prints as \<^verbatim>\<open>-0.0\<close> (a negative timing that rounds to zero).
\<close>

definition timing_key :: "real option \<Rightarrow> real \<times> bool" where
  "timing_key t =
     (case t of
        None \<Rightarrow> (0, False)
      | Some x \<Rightarrow>
          if x = 0 then (0, False)
          else (py_round4 x, x < 0 \<and> py_round4 x = 0))"

type_synonym event_key =
  "event_type \<times> planet \<times> planet \<times> planet option \<times> aspect option \<times> (real \<times> bool)"

text \<open>
  The source joins the six components with colons into one string; the enum values are
  distinct names without a colon and none is \<^verbatim>\<open>"none"\<close>, so two keys are equal
  exactly when the six components are, and the key is kept as the tuple.
\<close>

definition event_key :: "perfection_event \<Rightarrow> event_key" where
  "event_key e =
     (event_type e, fst (primary_pair e), snd (primary_pair e), mediator e, aspect e,
      timing_key (exact_in_days e))"

subsection \<open>\<^verbatim>\<open>EventDetector._deduplicate_events\<close>\<close>

text \<open>
  The inner loop of the duplicate branch: the first kept event with the same key is
  replaced when the new one has more metadata entries, and the loop breaks.
\<close>

fun replace_existing :: "perfection_event \<Rightarrow> perfection_event list \<Rightarrow> perfection_event list" where
  "replace_existing ev [] = []"
| "replace_existing ev (existing # rest) =
     (if event_key existing = event_key ev
      then (if metadata_len ev > metadata_len existing then ev # rest else existing # rest)
      else existing # replace_existing ev rest)"

fun dedup_loop ::
  "event_key set \<Rightarrow> perfection_event list \<Rightarrow> perfection_event list \<Rightarrow> perfection_event list" where
  "dedup_loop seen_keys unique_events [] = unique_events"
| "dedup_loop seen_keys unique_events (ev # evs) =
     (if event_key ev \<notin> seen_keys
      then dedup_loop (insert (event_key ev) seen_keys) (unique_events @ [ev]) evs
      else dedup_loop seen_keys (replace_existing ev unique_events) evs)"

definition deduplicate_events :: "perfection_event list \<Rightarrow> perfection_event list" where
  "deduplicate_events events = dedup_loop {} [] events"

text \<open>
  The loop invariant: \<^verbatim>\<open>seen_keys\<close> is the set of the keys of \<^verbatim>\<open>unique_events\<close>, and
  no two kept events share a key.
\<close>

definition dedup_inv :: "event_key set \<Rightarrow> perfection_event list \<Rightarrow> bool" where
  "dedup_inv seen uniq \<longleftrightarrow> seen = event_key ` set uniq \<and> distinct (map event_key uniq)"

subsection \<open>\<^verbatim>\<open>EventDetector._sort_events_by_priority\<close>\<close>

text \<open>A float that may be \<^verbatim>\<open>float('inf')\<close>, with the order of Python's floats.\<close>

datatype xfloat = Fin real | PInf

instantiation xfloat :: linorder
begin

fun less_eq_xfloat :: "xfloat \<Rightarrow> xfloat \<Rightarrow> bool" where
  "less_eq_xfloat (Fin x) (Fin y) = (x \<le> y)"
| "less_eq_xfloat (Fin x) PInf = True"
| "less_eq_xfloat PInf (Fin y) = False"
| "less_eq_xfloat PInf PInf = True"

fun less_xfloat :: "xfloat \<Rightarrow> xfloat \<Rightarrow> bool" where
  "less_xfloat (Fin x) (Fin y) = (x < y)"
| "less_xfloat (Fin x) PInf = True"
| "less_xfloat PInf (Fin y) = False"
| "less_xfloat PInf PInf = False"

instance
proof
  fix x y z :: xfloat
  show "(x < y) = (x \<le> y \<and> \<not> y \<le> x)" by (cases x; cases y) auto
  show "x \<le> x" by (cases x) auto
  show "x \<le> y \<Longrightarrow> y \<le> z \<Longrightarrow> x \<le> z" by (cases x; cases y; cases z) auto
  show "x \<le> y \<Longrightarrow> y \<le> x \<Longrightarrow> x = y" by (cases x; cases y) auto
  show "x \<le> y \<or> y \<le> x" by (cases x; cases y) auto
qed

end

text \<open>
  \<^verbatim>\<open>event.exact_in_days or float('inf')\<close>: Python's \<^verbatim>\<open>or\<close> yields its right operand
  when the left one is falsy, that is \<^verbatim>\<open>None\<close> or zero.
\<close>

definition or_inf :: "real option \<Rightarrow> xfloat" where
  "or_inf t = (case t of None \<Rightarrow> PInf | Some x \<Rightarrow> if x = 0 then PInf else Fin x)"

fun type_priority :: "event_type \<Rightarrow> nat" where
  "type_priority DIRECT = 0"
| "type_priority DIRECT_PENALIZED = 1"
| "type_priority TRANSLATION = 2"
| "type_priority COLLECTION = 3"
| "type_priority PROHIBITION = 4"
| "type_priority COMBUSTION_VETO = 5"
| "type_priority HOUSE_PLACEMENT = 6"
| "type_priority REFRANATION = 7"
| "type_priority FRUSTRATION = 8"
| "type_priority ABSCISSION = 9"

definition sort_key_fn :: "perfection_event \<Rightarrow> xfloat \<times> nat \<times> nat" where
  "sort_key_fn event =
     (or_inf (exact_in_days event), type_priority (event_type event), length (challenges event))"

text \<open>
  \<^verbatim>\<open>sorted(events, key=sort_key)\<close> is stable; so is the insertion sort \<^const>\<open>sort_key\<close>
  (\<open>sort_key_stable\<close>), and a stable sort by a key is unique.
\<close>

definition sort_events_by_priority :: "perfection_event list \<Rightarrow> perfection_event list" where
  "sort_events_by_priority events = sort_key sort_key_fn events"

section \<open>\<^verbatim>\<open>PerfectionChooser\<close>\<close>

text \<open>
  \<^verbatim>\<open>min(xs, key=f, default=None)\<close>: the first element whose key is minimal.
\<close>

fun py_min_by :: "('a \<Rightarrow> 'k::linorder) \<Rightarrow> 'a list \<Rightarrow> 'a option" where
  "py_min_by f [] = None"
| "py_min_by f (x # xs) = Some (foldl (\<lambda>best y. if f y < f best then y else best) x xs)"

definition earliest_key :: "perfection_event \<Rightarrow> bool \<times> xfloat" where
  "earliest_key e = (exact_in_days e = None, or_inf (exact_in_days e))"

definition positive_types :: "event_type set" where
  "positive_types = {DIRECT, DIRECT_PENALIZED, TRANSLATION, COLLECTION}"

definition denial_types :: "event_type set" where
  "denial_types = {REFRANATION, FRUSTRATION, ABSCISSION}"

text \<open>
  The pre-emption test \<^verbatim>\<open>earliest_proh and (not earliest_pos or (earliest_proh.exact_in_days
  or float('inf')) < (earliest_pos.exact_in_days or float('inf')))\<close>.
\<close>

definition preempts :: "perfection_event option \<Rightarrow> perfection_event option \<Rightarrow> bool" where
  "preempts earliest_proh earliest_pos =
     (case earliest_proh of
        None \<Rightarrow> False
      | Some proh \<Rightarrow>
          (case earliest_pos of
             None \<Rightarrow> True
           | Some pos \<Rightarrow> or_inf (exact_in_days proh) < or_inf (exact_in_days pos)))"

definition select_primary_perfection :: "perfection_event list \<Rightarrow> perfection_event option" where
  "select_primary_perfection events =
     (if events = [] then None
      else
        let positives = filter (\<lambda>e. event_type e \<in> positive_types) events;
            prohibitions = filter (\<lambda>e. event_type e = PROHIBITION) events;
            denials = filter (\<lambda>e. event_type e \<in> denial_types) events;
            earliest_pos = py_min_by earliest_key positives;
            earliest_proh = py_min_by earliest_key prohibitions;
            earliest_den = py_min_by earliest_key denials
        in if preempts earliest_proh earliest_pos then earliest_proh
           else if earliest_pos \<noteq> None then earliest_pos
           else if earliest_den \<noteq> None then earliest_den
           else py_min_by earliest_key events)"

section \<open>Charts, configuration and external collaborators\<close>

text \<open>
  Modelled from the spec: \<^verbatim>\<open>SolarCondition\<close> belongs to the absent module \<^verbatim>\<open>models\<close>;
  the spec names an "optional solar-condition tag (e.g. combustion)", and the source
  only asks whether the tag is \<^verbatim>\<open>COMBUSTION\<close>.
\<close>

datatype solar_condition = COMBUSTION | OTHER_CONDITION

text \<open>
  The attribute \<^verbatim>\<open>solar_condition\<close> of a position, as \<^verbatim>\<open>_is_combustion_conjunction\<close>
  reads it: the attribute may be absent (\<^verbatim>\<open>hasattr\<close> is false), it may be present and
  hold \<^verbatim>\<open>None\<close> (then \<^verbatim>\<open>.condition\<close> raises \<^verbatim>\<open>AttributeError\<close>), or it holds an
  object whose \<^verbatim>\<open>condition\<close> is a member of \<^verbatim>\<open>SolarCondition\<close>.
\<close>

datatype solar_attr = NoAttr | AttrNone | Condition solar_condition

text \<open>
  A position snapshot. The source reads its attributes with \<^verbatim>\<open>getattr\<close> and a default
  or with \<^verbatim>\<open>hasattr\<close>, so each attribute may be absent (\<open>None\<close>); a numeric
  attribute that is present holds a number (for \<^verbatim>\<open>daily_motion\<close> and \<^verbatim>\<open>speed\<close>,
  \<^verbatim>\<open>None\<close> counts as absent, as in \<^verbatim>\<open>_get_daily_motion\<close>; a \<^verbatim>\<open>house\<close> of
  \<^verbatim>\<open>None\<close> equals no house number and is no cadent house, as an absent one).
  \<^verbatim>\<open>daily_motion\<close> and \<^verbatim>\<open>speed\<close> are two attributes and may differ.
\<close>

record planet_pos =
  longitude :: "real option"
  daily_motion :: "real option"
  speed :: "real option"
  house :: "int option"
  solar_condition :: solar_attr

text \<open>
  A chart: \<^verbatim>\<open>chart.planets\<close> is a dict. \<open>significators\<close> is what
  \<^verbatim>\<open>chart.get("significators", {})\<close> yields, a dict as the list of its items, with
  \<open>None\<close> when the chart object has no \<^verbatim>\<open>get\<close> (the \<^verbatim>\<open>AttributeError\<close> that
  \<^verbatim>\<open>_detect_house_placement_events\<close> catches).
\<close>

record chart =
  planets :: "planet \<rightharpoonup> planet_pos"
  significators :: "(string \<times> int) list option"

text \<open>
  The configuration object \<^verbatim>\<open>cfg()\<close> of the absent module \<^verbatim>\<open>horary_config\<close>, as the
  values the source reads from it, each \<^verbatim>\<open>getattr\<close> default already applied by whoever
  builds the record. \<open>translation_max_separation_deg\<close> and
  \<open>translation_max_application_deg\<close> are the knobs the repository's tests set
  (\<^verbatim>\<open>ed.config.translation.max_separation_deg = 10.0\<close>); no function of
  \<^verbatim>\<open>perfection_core.py\<close> reads them.
\<close>

record config =
  allow_out_of_sign_hits :: bool
  perfection_allow_out_of_sign :: bool
  perfection_require_in_sign :: bool
  translation_require_speed_advantage :: bool
  translation_max_lookback_days :: real
  translation_max_separation_deg :: real
  translation_max_application_deg :: real
  conf_same_ruler :: int
  conf_direct_basic :: int
  conf_hard_square_penalty :: int
  conf_hard_opposition_penalty :: int
  conf_mutual_rulership_bonus :: int
  conf_mutual_exaltation_bonus :: int
  conf_translation_of_light :: int
  conf_collection_of_light :: int
  conf_abscission :: int
  conf_refranation :: int
  conf_frustration :: int

text \<open>
  What the module calls outside the sources: the helper
  \<^verbatim>\<open>calculation.helpers.days_to_sign_exit(longitude, speed)\<close>, which returns a number of
  days or \<^verbatim>\<open>None\<close>, and \<^verbatim>\<open>TraditionalReceptionCalculator.calculate_comprehensive_reception\<close>.
  Both are parameters of the model, together with the configuration.
\<close>

record env =
  cfg :: config
  days_to_sign_exit :: "real \<Rightarrow> real \<Rightarrow> real option"
  calculate_comprehensive_reception :: "chart \<Rightarrow> planet \<Rightarrow> planet \<Rightarrow> reception"

datatype py_error = KeyError | AttributeError

definition EPS :: real where
  "EPS = 1 / 1000"

definition all_aspects :: "aspect list" where
  "all_aspects = [CONJUNCTION, SEXTILE, SQUARE, TRINE, OPPOSITION]"

definition classical :: "planet list" where
  "classical = [SUN, MOON, MERCURY, VENUS, MARS, JUPITER, SATURN]"

section \<open>\<^verbatim>\<open>TimingKernel\<close>\<close>

text \<open>Python's \<^verbatim>\<open>x % m\<close> on floats, for a positive \<open>m\<close>: the result lies in \<open>[0, m)\<close>.\<close>

definition py_mod :: "real \<Rightarrow> real \<Rightarrow> real" where
  "py_mod x m = x - m * of_int \<lfloor>x / m\<rfloor>"

text \<open>
  \<^verbatim>\<open>_get_daily_motion\<close>: 0 for no position, else \<^verbatim>\<open>daily_motion\<close>, else \<^verbatim>\<open>speed\<close>,
  else 0. \<^verbatim>\<open>TimingKernel\<close> and \<^verbatim>\<open>EventDetector\<close> each carry the same code.
\<close>

definition get_daily_motion :: "planet_pos option \<Rightarrow> real" where
  "get_daily_motion planet_pos =
     (case planet_pos of
        None \<Rightarrow> 0
      | Some pos \<Rightarrow>
          (case daily_motion pos of
             Some d \<Rightarrow> d
           | None \<Rightarrow> (case speed pos of Some s \<Rightarrow> s | None \<Rightarrow> 0)))"

text \<open>\<^verbatim>\<open>getattr(pos, name, default)\<close> on an attribute that may be absent.\<close>

definition getattr_or :: "'a option \<Rightarrow> 'a \<Rightarrow> 'a" where
  "getattr_or v d = (case v of Some x \<Rightarrow> x | None \<Rightarrow> d)"

definition norm180 :: "real \<Rightarrow> real" where
  "norm180 x = py_mod (x + 180) 360 - 180"

text \<open>The candidate target separations of an aspect (the list \<^verbatim>\<open>targets\<close>).\<close>

definition aspect_targets :: "aspect \<Rightarrow> real list" where
  "aspect_targets a =
     (if degrees a = 0 then [0]
      else if degrees a = 180 then [180, - 180]
      else [degrees a, - degrees a])"

text \<open>
  \<^verbatim>\<open>min(deltas, key=lambda d: abs(d))\<close>; the list is never empty (an empty one would
  raise in Python, the \<open>[]\<close> case is not reached).
\<close>

fun min_abs :: "real list \<Rightarrow> real" where
  "min_abs [] = 0"
| "min_abs (d # ds) = foldl (\<lambda>best x. if \<bar>x\<bar> < \<bar>best\<bar> then x else best) d ds"

definition delta_to_exact :: "real \<Rightarrow> real \<Rightarrow> aspect \<Rightarrow> real" where
  "delta_to_exact lon_a lon_b a =
     (let sep_now = py_mod (lon_b - lon_a + 180) 360 - 180;
          deltas = map (\<lambda>t. norm180 (sep_now - t)) (aspect_targets a)
      in min_abs deltas)"

text \<open>
  The forward-only root: \<^verbatim>\<open>t = -delta / v_rel\<close>, moved on by whole periods when it is
  not positive. \<^verbatim>\<open>(-t) // period\<close> is the floor of the quotient, and \<^verbatim>\<open>int\<close> of a
  whole number is that number.
\<close>

definition forward_time :: "real \<Rightarrow> real \<Rightarrow> real" where
  "forward_time delta v_rel =
     (let t = - delta / v_rel
      in if t \<le> 0
         then (let period = 360 / \<bar>v_rel\<bar>;
                   k = \<lfloor>(- t) / period\<rfloor> + 1
               in t + of_int k * period)
         else t)"

text \<open>
  Lines 129 to 175 of \<^verbatim>\<open>when_exact_in_days\<close>, for two positions that exist: no
  solution (no relative motion and not exact), exact now, or the solved forward time.
\<close>

datatype solved = NoSolution | AlreadyExact | ForwardIn real

definition solve_exact :: "planet_pos \<Rightarrow> planet_pos \<Rightarrow> aspect \<Rightarrow> solved" where
  "solve_exact pos_a pos_b a =
     (let lon_a = getattr_or (longitude pos_a) 0;
          lon_b = getattr_or (longitude pos_b) 0;
          delta = delta_to_exact lon_a lon_b a;
          v_rel = get_daily_motion (Some pos_b) - get_daily_motion (Some pos_a)
      in if \<bar>v_rel\<bar> < 1 / 1000000
         then (if \<bar>delta\<bar> < 1 / 1000 then AlreadyExact else NoSolution)
         else ForwardIn (forward_time delta v_rel))"

text \<open>The time the solver has found, if any: 0 for "exact now".\<close>

fun solved_time :: "solved \<Rightarrow> real option" where
  "solved_time NoSolution = None"
| "solved_time AlreadyExact = Some 0"
| "solved_time (ForwardIn t) = Some t"

definition enforce_sign_guard :: "config \<Rightarrow> bool" where
  "enforce_sign_guard c \<longleftrightarrow>
     \<not> allow_out_of_sign_hits c \<and> \<not> perfection_allow_out_of_sign c \<and> perfection_require_in_sign c"

text \<open>
  The exit times the guard compares with; the helper is called with the attribute
  \<^verbatim>\<open>speed\<close> (default 0), not with \<^verbatim>\<open>_get_daily_motion\<close>.
\<close>

definition days_to_exit :: "env \<Rightarrow> planet_pos \<Rightarrow> real option" where
  "days_to_exit E pos =
     days_to_sign_exit E (getattr_or (longitude pos) 0) (getattr_or (speed pos) 0)"

definition exits_before :: "real option \<Rightarrow> real \<Rightarrow> bool" where
  "exits_before days t = (case days of None \<Rightarrow> False | Some d \<Rightarrow> t > d)"

text \<open>
  \<^verbatim>\<open>when_exact_in_days\<close>. Every member of \<^verbatim>\<open>Aspect\<close> has its \<^verbatim>\<open>degrees\<close>, so the
  early return for a missing target is not reached.
\<close>

definition when_exact_in_days ::
  "env \<Rightarrow> planet \<Rightarrow> planet \<Rightarrow> aspect \<Rightarrow> chart \<Rightarrow> real option" where
  "when_exact_in_days E planet_a planet_b a ch =
     (case planets ch planet_a of
        None \<Rightarrow> None
      | Some pos_a \<Rightarrow>
          (case planets ch planet_b of
             None \<Rightarrow> None
           | Some pos_b \<Rightarrow>
               (case solve_exact pos_a pos_b a of
                  NoSolution \<Rightarrow> None
                | AlreadyExact \<Rightarrow> Some 0
                | ForwardIn t \<Rightarrow>
                    if enforce_sign_guard (cfg E) \<and>
                       (exits_before (days_to_exit E pos_a) t \<or> exits_before (days_to_exit E pos_b) t)
                    then None
                    else Some t)))"

record route =
  route_aspect :: aspect
  route_timing :: real
  route_applier :: planet
  route_receiver :: planet

text \<open>\<^verbatim>\<open>TimingKernel._current_direct_route\<close>; the window is an \<^verbatim>\<open>int\<close> of days.\<close>

definition current_direct_route :: "env \<Rightarrow> chart \<Rightarrow> planet \<Rightarrow> planet \<Rightarrow> int \<Rightarrow> route option" where
  "current_direct_route E ch querent quesited window_days =
     foldl
       (\<lambda>best a.
          case when_exact_in_days E querent quesited a ch of
            None \<Rightarrow> best
          | Some t \<Rightarrow>
              if t > of_int window_days then best
              else
                let sp_q = \<bar>get_daily_motion (planets ch querent)\<bar>;
                    sp_e = \<bar>get_daily_motion (planets ch quesited)\<bar>;
                    cand = (if sp_q \<ge> sp_e
                            then \<lparr>route_aspect = a, route_timing = t,
                                  route_applier = querent, route_receiver = quesited\<rparr>
                            else \<lparr>route_aspect = a, route_timing = t,
                                  route_applier = quesited, route_receiver = querent\<rparr>)
                in (case best of
                      None \<Rightarrow> Some cand
                    | Some b \<Rightarrow> if route_timing cand < route_timing b then Some cand else best))
       None all_aspects"

section \<open>\<^verbatim>\<open>EventDetector\<close>: helpers\<close>

text \<open>
  \<^verbatim>\<open>_get_cached_reception\<close>. The cache memoises a calculator taken to be deterministic,
  so the cached value is the computed one; a body paired with itself gets the identity
  summary (also what \<^verbatim>\<open>precompute_receptions\<close> stores for it).
\<close>

definition identity_reception :: reception where
  "identity_reception =
     \<lparr>rec_type = Some ''identity'', rec_mutual = Some ''identity'', rec_one_way = Some []\<rparr>"

definition get_cached_reception :: "env \<Rightarrow> chart \<Rightarrow> planet \<Rightarrow> planet \<Rightarrow> reception" where
  "get_cached_reception E ch planet1 planet2 =
     (if planet1 = planet2 then identity_reception
      else calculate_comprehensive_reception E ch planet1 planet2)"

text \<open>Python truthiness of \<^verbatim>\<open>d.get(key)\<close> for a string or a list value.\<close>

definition truthy :: "'a list option \<Rightarrow> bool" where
  "truthy v = (case v of None \<Rightarrow> False | Some xs \<Rightarrow> xs \<noteq> [])"

definition applying_leg :: "aspect \<Rightarrow> real \<Rightarrow> planet \<Rightarrow> leg" where
  "applying_leg a t p = \<lparr>leg_aspect = a, leg_timing = t, leg_kind = Applying, leg_target = p\<rparr>"

definition separating_leg :: "aspect \<Rightarrow> real \<Rightarrow> planet \<Rightarrow> leg" where
  "separating_leg a t p = \<lparr>leg_aspect = a, leg_timing = t, leg_kind = Separating, leg_target = p\<rparr>"

text \<open>
  \<^verbatim>\<open>_find_applying_aspect\<close>: \<^verbatim>\<open>if timing and 0 < timing <= window_days\<close>, where the
  first conjunct is truthiness (neither \<^verbatim>\<open>None\<close> nor zero).
\<close>

definition find_applying_aspect :: "env \<Rightarrow> chart \<Rightarrow> planet \<Rightarrow> planet \<Rightarrow> int \<Rightarrow> leg option" where
  "find_applying_aspect E ch planet1 planet2 window_days =
     foldl
       (\<lambda>best a.
          case when_exact_in_days E planet1 planet2 a ch of
            None \<Rightarrow> best
          | Some timing \<Rightarrow>
              if timing \<noteq> 0 \<and> 0 < timing \<and> timing \<le> of_int window_days
              then (case best of
                      None \<Rightarrow> Some (applying_leg a timing planet2)
                    | Some b \<Rightarrow>
                        if timing < leg_timing b then Some (applying_leg a timing planet2)
                        else best)
              else best)
       None all_aspects"

text \<open>
  \<^verbatim>\<open>_find_separating_aspect\<close>: the last exact hit in the past, over every aspect and
  each of its targets, the smallest look-back winning. Nothing but the window bounds the
  look-back; the angular distance from exact is not compared with anything.
\<close>

definition find_separating_aspect :: "chart \<Rightarrow> planet \<Rightarrow> planet \<Rightarrow> int \<Rightarrow> leg option" where
  "find_separating_aspect ch planet1 planet2 window_days =
     (case planets ch planet1 of
        None \<Rightarrow> None
      | Some pos1 \<Rightarrow>
          (case planets ch planet2 of
             None \<Rightarrow> None
           | Some pos2 \<Rightarrow>
               let delta = py_mod (getattr_or (longitude pos2) 0 - getattr_or (longitude pos1) 0) 360;
                   v_rel = get_daily_motion (Some pos2) - get_daily_motion (Some pos1)
               in if \<bar>v_rel\<bar> < 1 / 1000000 then None
                  else
                    foldl
                      (\<lambda>best (a, target).
                         let dt = (if v_rel > 0 then py_mod (delta - target) 360 / v_rel
                                   else py_mod (target - delta) 360 / (- v_rel))
                         in if 0 < dt \<and> dt \<le> of_int window_days
                            then (case best of
                                    None \<Rightarrow> Some (separating_leg a (- dt) planet2)
                                  | Some b \<Rightarrow>
                                      if dt < - leg_timing b
                                      then Some (separating_leg a (- dt) planet2)
                                      else best)
                            else best)
                      None
                      (concat (map (\<lambda>a. map (Pair a) (aspect_targets a)) all_aspects))))"

record next_app =
  na_target :: planet
  na_aspect :: aspect
  na_timing :: real

definition find_earliest_application ::
  "env \<Rightarrow> chart \<Rightarrow> planet \<Rightarrow> int \<Rightarrow> planet set \<Rightarrow> next_app option" where
  "find_earliest_application E ch p window_days exclude =
     foldl
       (\<lambda>best other.
          if other = p \<or> other \<in> exclude then best
          else
            (case find_applying_aspect E ch p other window_days of
               None \<Rightarrow> best
             | Some cand \<Rightarrow>
                 (case best of
                    None \<Rightarrow>
                      Some \<lparr>na_target = other, na_aspect = leg_aspect cand, na_timing = leg_timing cand\<rparr>
                  | Some b \<Rightarrow>
                      if leg_timing cand < na_timing b
                      then Some \<lparr>na_target = other, na_aspect = leg_aspect cand,
                                 na_timing = leg_timing cand\<rparr>
                      else best)))
       None classical"

text \<open>\<^verbatim>\<open>chart.planets[p]\<close>: a missing key raises \<^verbatim>\<open>KeyError\<close>.\<close>

definition planets_at :: "chart \<Rightarrow> planet \<Rightarrow> py_error + planet_pos" where
  "planets_at ch p = (case planets ch p of None \<Rightarrow> Inl KeyError | Some pos \<Rightarrow> Inr pos)"

text \<open>
  \<^verbatim>\<open>_is_valid_collector\<close>: the three positions are read by subscript, in this order,
  before any speed is compared.
\<close>

definition is_valid_collector :: "chart \<Rightarrow> planet \<Rightarrow> planet \<Rightarrow> planet \<Rightarrow> py_error + bool" where
  "is_valid_collector ch collector sig1 sig2 =
     (case planets_at ch collector of
        Inl err \<Rightarrow> Inl err
      | Inr collector_pos \<Rightarrow>
          (case planets_at ch sig1 of
             Inl err \<Rightarrow> Inl err
           | Inr sig1_pos \<Rightarrow>
               (case planets_at ch sig2 of
                  Inl err \<Rightarrow> Inl err
                | Inr sig2_pos \<Rightarrow>
                    let collector_speed = \<bar>get_daily_motion (Some collector_pos)\<bar>;
                        sig1_speed = \<bar>get_daily_motion (Some sig1_pos)\<bar>;
                        sig2_speed = \<bar>get_daily_motion (Some sig2_pos)\<bar>
                    in Inr (collector_speed < min sig1_speed sig2_speed))))"

definition will_station_before :: "chart \<Rightarrow> planet \<Rightarrow> real \<Rightarrow> bool" where
  "will_station_before ch p days =
     (case planets ch p of
        None \<Rightarrow> False
      | Some pos \<Rightarrow>
          let current_speed = get_daily_motion (Some pos)
          in if current_speed \<le> 0 then False
             else if p \<notin> {MERCURY, VENUS, MARS, JUPITER, SATURN} then False
             else \<bar>current_speed\<bar> < 1 / 10)"

text \<open>
  The abscission guards of translation and collection: the first body of the classical
  order, outside the three named ones, whose application to \<open>target\<close> completes after
  now and strictly before \<open>bound\<close>; the loop breaks there.
\<close>

fun first_interceptor ::
  "env \<Rightarrow> chart \<Rightarrow> int \<Rightarrow> planet \<Rightarrow> real \<Rightarrow> planet list \<Rightarrow> (planet \<times> leg) option" where
  "first_interceptor E ch window_days target bound [] = None"
| "first_interceptor E ch window_days target bound (other # rest) =
     (case find_applying_aspect E ch other target window_days of
        None \<Rightarrow> first_interceptor E ch window_days target bound rest
      | Some other_app \<Rightarrow>
          if 0 < leg_timing other_app \<and> leg_timing other_app < bound
          then Some (other, other_app)
          else first_interceptor E ch window_days target bound rest)"

text \<open>
  The loop \<^verbatim>\<open>for x in xs: ...; events.append(...)\<close> whose body may raise: the events of
  the iterations so far are lost with the exception.
\<close>

fun for_each :: "('a \<Rightarrow> py_error + 'b list) \<Rightarrow> 'a list \<Rightarrow> 'b list \<Rightarrow> py_error + 'b list" where
  "for_each body [] events = Inr events"
| "for_each body (x # xs) events =
     (case body x of
        Inl err \<Rightarrow> Inl err
      | Inr new \<Rightarrow> for_each body xs (events @ new))"

section \<open>\<^verbatim>\<open>EventDetector\<close>: the event families\<close>

subsection \<open>Translation\<close>

definition translation_abscission ::
  "env \<Rightarrow> planet \<Rightarrow> planet \<Rightarrow> planet \<Rightarrow> planet \<Rightarrow> planet \<Rightarrow> leg \<Rightarrow> perfection_event" where
  "translation_abscission E querent quesited translator receiver other other_app =
     (PerfectionEvent ABSCISSION (querent, quesited))
       \<lparr>aspect := Some (leg_aspect other_app), mediator := Some other,
        exact_in_days := Some (leg_timing other_app), favorable := False,
        confidence := Some (conf_abscission (cfg E)),
        metadata := [(''receiver'', MPlanet receiver), (''interceptor'', MPlanet other),
                     (''abscises_translator'', MPlanet translator)]\<rparr>"

definition translation_event ::
  "env \<Rightarrow> chart \<Rightarrow> planet \<Rightarrow> planet \<Rightarrow> planet \<Rightarrow> leg \<Rightarrow> leg \<Rightarrow> perfection_event" where
  "translation_event E ch querent quesited translator sep_event app_event =
     (let recep = get_cached_reception E ch querent quesited;
          recept_sep = get_cached_reception E ch translator (leg_target sep_event);
          recept_app = get_cached_reception E ch translator (leg_target app_event);
          hard_second_leg = (leg_aspect app_event \<in> {SQUARE, OPPOSITION});
          anti_sep = (rec_type recept_sep = Some ''detriment_or_fall_against_translator'');
          hostile = (hard_second_leg \<and> \<not> truthy (rec_mutual recept_app)
                     \<and> \<not> truthy (rec_one_way recept_app));
          fav = (\<not> hostile);
          chal = (if hostile then [''hard_second_leg_no_reception''] else [])
                 @ (if anti_sep then [''anti_reception_first_leg''] else []);
          tags = [''translation''] @ (if hostile then [''hostile''] else []);
          conf = (if fav then conf_translation_of_light (cfg E)
                  else max (conf_translation_of_light (cfg E) - 20) 20)
      in (PerfectionEvent TRANSLATION (querent, quesited))
           \<lparr>mediator := Some translator, exact_in_days := Some (leg_timing app_event),
            favorable := fav, confidence := Some conf,
            reception_data := Some recep, challenges := chal, quality_tags := tags,
            metadata := [(''separation'', MLeg sep_event), (''application'', MLeg app_event)]\<rparr>)"

text \<open>One iteration of the loop over the translators.\<close>

definition translation_for ::
  "env \<Rightarrow> chart \<Rightarrow> planet \<Rightarrow> planet \<Rightarrow> int \<Rightarrow> planet \<Rightarrow> perfection_event list" where
  "translation_for E ch querent quesited window_days translator =
     (if translator = querent \<or> translator = quesited then []
      else
        let sep0 = find_separating_aspect ch translator querent window_days;
            app0 = find_applying_aspect E ch translator quesited window_days;
            reverse = (sep0 = None \<or> app0 = None);
            sep1 = (if reverse then find_separating_aspect ch translator quesited window_days
                    else sep0);
            app1 = (if reverse then find_applying_aspect E ch translator querent window_days
                    else app0)
        in case sep1 of
             None \<Rightarrow> []
           | Some sep_event \<Rightarrow>
               (case app1 of
                  None \<Rightarrow> []
                | Some app_event \<Rightarrow>
                    if \<not> leg_timing sep_event < leg_timing app_event then []
                    else
                      let tr_sp = \<bar>get_daily_motion (planets ch translator)\<bar>;
                          q_sp = \<bar>get_daily_motion (planets ch querent)\<bar>;
                          qe_sp = \<bar>get_daily_motion (planets ch quesited)\<bar>
                      in if translation_require_speed_advantage (cfg E)
                            \<and> \<not> (tr_sp > q_sp \<and> tr_sp > qe_sp) then []
                         else if - leg_timing sep_event > translation_max_lookback_days (cfg E)
                         then []
                         else
                           let receiver = leg_target app_event
                           in case find_earliest_application E ch translator window_days
                                     {leg_target sep_event} of
                                None \<Rightarrow> []
                              | Some earliest_next \<Rightarrow>
                                  if na_target earliest_next \<noteq> receiver
                                     \<or> \<bar>na_timing earliest_next - leg_timing app_event\<bar> > EPS
                                  then []
                                  else
                                    (case first_interceptor E ch window_days receiver
                                            (leg_timing app_event)
                                            (filter (\<lambda>other. other \<notin> {translator, querent, quesited})
                                               classical) of
                                       Some (other, other_app) \<Rightarrow>
                                         [translation_abscission E querent quesited translator
                                            receiver other other_app]
                                     | None \<Rightarrow>
                                         [translation_event E ch querent quesited translator
                                            sep_event app_event])))"

definition detect_translation_events ::
  "env \<Rightarrow> chart \<Rightarrow> planet \<Rightarrow> planet \<Rightarrow> int \<Rightarrow> perfection_event list" where
  "detect_translation_events E ch querent quesited window_days =
     (if querent = quesited then []
      else concat (map (translation_for E ch querent quesited window_days)
                     [MOON, MERCURY, VENUS, MARS, JUPITER, SATURN]))"

subsection \<open>Collection\<close>

definition collection_abscission ::
  "env \<Rightarrow> planet \<Rightarrow> planet \<Rightarrow> planet \<Rightarrow> planet \<Rightarrow> leg \<Rightarrow> perfection_event" where
  "collection_abscission E querent quesited collector other other_app =
     (PerfectionEvent ABSCISSION (querent, quesited))
       \<lparr>aspect := Some (leg_aspect other_app), mediator := Some other,
        exact_in_days := Some (leg_timing other_app), favorable := False,
        confidence := Some (conf_abscission (cfg E)),
        metadata := [(''collector'', MPlanet collector), (''interceptor'', MPlanet other)]\<rparr>"

definition collection_event ::
  "env \<Rightarrow> chart \<Rightarrow> planet \<Rightarrow> planet \<Rightarrow> planet \<Rightarrow> leg \<Rightarrow> leg \<Rightarrow> perfection_event" where
  "collection_event E ch querent quesited collector querent_app quesited_app =
     (let collection_time = max (leg_timing querent_app) (leg_timing quesited_app);
          recep = get_cached_reception E ch querent quesited;
          rec_q = get_cached_reception E ch collector querent;
          rec_e = get_cached_reception E ch collector quesited;
          fav = (truthy (rec_one_way rec_q) \<and> truthy (rec_one_way rec_e));
          conf = (if fav then conf_collection_of_light (cfg E)
                  else max (conf_collection_of_light (cfg E) - 15) 25);
          chal = (if fav then [] else [''weak_reception_to_collector''])
      in (PerfectionEvent COLLECTION (querent, quesited))
           \<lparr>mediator := Some collector, exact_in_days := Some collection_time,
            favorable := fav, confidence := Some conf,
            reception_data := Some recep, challenges := chal,
            metadata := [(''querent_application'', MLeg querent_app),
                         (''quesited_application'', MLeg quesited_app)]\<rparr>)"

text \<open>One iteration of the loop over the collectors.\<close>

definition collection_for ::
  "env \<Rightarrow> chart \<Rightarrow> planet \<Rightarrow> planet \<Rightarrow> int \<Rightarrow> planet \<Rightarrow> py_error + perfection_event list" where
  "collection_for E ch querent quesited window_days collector =
     (if collector = querent \<or> collector = quesited then Inr []
      else
        case is_valid_collector ch collector querent quesited of
          Inl err \<Rightarrow> Inl err
        | Inr valid \<Rightarrow>
            if \<not> valid then Inr []
            else
              (case find_applying_aspect E ch querent collector window_days of
                 None \<Rightarrow> Inr []
               | Some querent_app \<Rightarrow>
                   (case find_applying_aspect E ch quesited collector window_days of
                      None \<Rightarrow> Inr []
                    | Some quesited_app \<Rightarrow>
                        let collection_time = max (leg_timing querent_app) (leg_timing quesited_app)
                        in case first_interceptor E ch window_days collector
                                  (collection_time - EPS)
                                  (filter (\<lambda>other. other \<notin> {collector, querent, quesited})
                                     classical) of
                             Some (other, other_app) \<Rightarrow>
                               Inr [collection_abscission E querent quesited collector other other_app]
                           | None \<Rightarrow>
                               (case find_earliest_application E ch querent window_days {} of
                                  None \<Rightarrow> Inr []
                                | Some qa_next \<Rightarrow>
                                    (case find_earliest_application E ch quesited window_days {} of
                                       None \<Rightarrow> Inr []
                                     | Some qe_next \<Rightarrow>
                                         if na_target qa_next = collector
                                            \<and> na_target qe_next = collector
                                         then Inr [collection_event E ch querent quesited collector
                                                     querent_app quesited_app]
                                         else Inr [])))))"

definition detect_collection_events ::
  "env \<Rightarrow> chart \<Rightarrow> planet \<Rightarrow> planet \<Rightarrow> int \<Rightarrow> py_error + perfection_event list" where
  "detect_collection_events E ch querent quesited window_days =
     (if querent = quesited then Inr []
      else for_each (collection_for E ch querent quesited window_days) classical [])"

subsection \<open>House placement\<close>

definition house_placement_event :: "planet \<Rightarrow> planet \<Rightarrow> string \<Rightarrow> perfection_event" where
  "house_placement_event querent quesited placement_type =
     (PerfectionEvent HOUSE_PLACEMENT (querent, quesited))
       \<lparr>exact_in_days := Some 0, favorable := True, confidence := Some 75,
        metadata := [(''placement_type'', MStr placement_type)]\<rparr>"

text \<open>
  \<^verbatim>\<open>_detect_house_placement_events\<close>: the \<^verbatim>\<open>try\<close> block swallows the
  \<^verbatim>\<open>AttributeError\<close> of a chart without \<^verbatim>\<open>get\<close>; an empty mapping returns at once.
\<close>

definition detect_house_placement_events ::
  "chart \<Rightarrow> planet \<Rightarrow> planet \<Rightarrow> perfection_event list" where
  "detect_house_placement_events ch querent quesited =
     (case significators ch of
        None \<Rightarrow> []
      | Some sigs \<Rightarrow>
          if sigs = [] then []
          else
            let querent_house = getattr_or (map_of sigs ''querent_house'') 1;
                quesited_house = getattr_or (map_of sigs ''quesited_house'') 7
            in (case planets ch querent of
                  None \<Rightarrow> []
                | Some querent_pos \<Rightarrow>
                    if house querent_pos = Some quesited_house
                    then [house_placement_event querent quesited ''querent_in_quesited_house'']
                    else [])
               @ (case planets ch quesited of
                    None \<Rightarrow> []
                  | Some quesited_pos \<Rightarrow>
                      if house quesited_pos = Some querent_house
                      then [house_placement_event querent quesited ''quesited_in_querent_house'']
                      else []))"

subsection \<open>Direct aspects and the combustion veto\<close>

text \<open>
  \<^verbatim>\<open>_is_combustion_conjunction\<close>: the other body's position is read by subscript
  (\<^verbatim>\<open>KeyError\<close>), and \<^verbatim>\<open>hasattr(other_pos, 'solar_condition') and
  other_pos.solar_condition.condition == SolarCondition.COMBUSTION\<close> raises
  \<^verbatim>\<open>AttributeError\<close> when the attribute is there and holds \<^verbatim>\<open>None\<close>.
\<close>

definition is_combustion_conjunction :: "chart \<Rightarrow> planet \<Rightarrow> planet \<Rightarrow> py_error + bool" where
  "is_combustion_conjunction ch planet1 planet2 =
     (if planet1 \<noteq> SUN \<and> planet2 \<noteq> SUN then Inr False
      else
        let other_planet = (if planet1 = SUN then planet2 else planet1)
        in case planets_at ch other_planet of
             Inl err \<Rightarrow> Inl err
           | Inr other_pos \<Rightarrow>
               (case solar_condition other_pos of
                  NoAttr \<Rightarrow> Inr False
                | AttrNone \<Rightarrow> Inl AttributeError
                | Condition c \<Rightarrow> Inr (c = COMBUSTION)))"

definition cadent :: "planet_pos \<Rightarrow> bool" where
  "cadent pos = (case house pos of None \<Rightarrow> False | Some h \<Rightarrow> h \<in> {3, 6, 9, 12})"

definition assess_direct_aspect_quality ::
  "aspect \<Rightarrow> reception \<Rightarrow> chart \<Rightarrow> planet \<Rightarrow> planet
   \<Rightarrow> py_error + (bool \<times> string list \<times> string list)" where
  "assess_direct_aspect_quality a recep ch querent quesited =
     (let hard = (a \<in> {SQUARE, OPPOSITION});
          challenges0 = (if hard then [''hard_aspect''] else []);
          quality_tags0 = (if hard then [''with difficulty''] else [''easier''])
      in case planets_at ch querent of
           Inl err \<Rightarrow> Inl err
         | Inr querent_pos \<Rightarrow>
             (case planets_at ch quesited of
                Inl err \<Rightarrow> Inl err
              | Inr quesited_pos \<Rightarrow>
                  let challenges1 = challenges0
                        @ (if cadent querent_pos then [''cadent_querent''] else [])
                        @ (if cadent quesited_pos then [''cadent_quesited''] else []);
                      mutual = rec_mutual recep;
                      strong = (mutual = Some ''mutual_rulership'' \<or> mutual = Some ''mutual_exaltation'')
                  in if mutual = Some ''identity'' then Inr (True, [], [''identity/union''])
                     else
                       let cleared = (strong \<and> ''hard_aspect'' \<in> set challenges1);
                           challenges2 = (if cleared then remove1 ''hard_aspect'' challenges1
                                          else challenges1);
                           quality_tags2 =
                             (if cleared then [''easier'']
                              else if \<not> strong \<and> mutual = Some ''mixed_reception''
                              then quality_tags0 @ [''mitigated by reception'']
                              else quality_tags0)
                       in Inr (challenges2 = [] \<or> strong, challenges2, quality_tags2)))"

definition calculate_direct_confidence :: "env \<Rightarrow> aspect \<Rightarrow> reception \<Rightarrow> string list \<Rightarrow> int" where
  "calculate_direct_confidence E a recep chal =
     (let base0 = conf_direct_basic (cfg E);
          base1 = (if ''hard_aspect'' \<in> set chal
                   then max (base0 - (if a = SQUARE then conf_hard_square_penalty (cfg E)
                                      else conf_hard_opposition_penalty (cfg E))) 10
                   else base0);
          mutual = rec_mutual recep
      in if mutual = Some ''mutual_rulership''
         then min (base1 + conf_mutual_rulership_bonus (cfg E)) 100
         else if mutual = Some ''mutual_exaltation''
         then min (base1 + conf_mutual_exaltation_bonus (cfg E)) 100
         else base1)"

definition direct_candidates ::
  "env \<Rightarrow> chart \<Rightarrow> planet \<Rightarrow> planet \<Rightarrow> int \<Rightarrow> (aspect \<times> real) list" where
  "direct_candidates E ch querent quesited window_days =
     concat (map (\<lambda>a. case when_exact_in_days E querent quesited a ch of
                        None \<Rightarrow> []
                      | Some timing \<Rightarrow> if timing > of_int window_days then [] else [(a, timing)])
               all_aspects)"

definition detect_direct_events ::
  "env \<Rightarrow> chart \<Rightarrow> planet \<Rightarrow> planet \<Rightarrow> int \<Rightarrow> py_error + perfection_event list" where
  "detect_direct_events E ch querent quesited window_days =
     (case py_min_by snd (direct_candidates E ch querent quesited window_days) of
        None \<Rightarrow> Inr []
      | Some (a, timing) \<Rightarrow>
          let recep = get_cached_reception E ch querent quesited;
              veto = (if a = CONJUNCTION then is_combustion_conjunction ch querent quesited
                      else Inr False)
          in case veto of
               Inl err \<Rightarrow> Inl err
             | Inr True \<Rightarrow>
                 Inr [(PerfectionEvent COMBUSTION_VETO (querent, quesited))
                        \<lparr>mediator := Some SUN, aspect := Some a, exact_in_days := Some timing,
                         favorable := False, challenges := [''combustion'']\<rparr>]
             | Inr False \<Rightarrow>
                 (case assess_direct_aspect_quality a recep ch querent quesited of
                    Inl err \<Rightarrow> Inl err
                  | Inr (fav, chal, tags) \<Rightarrow>
                      Inr [(PerfectionEvent (if chal \<noteq> [] then DIRECT_PENALIZED else DIRECT)
                              (querent, quesited))
                             \<lparr>aspect := Some a, reception_data := Some recep,
                              exact_in_days := Some timing, favorable := fav,
                              confidence := Some (calculate_direct_confidence E a recep chal),
                              challenges := chal, quality_tags := tags\<rparr>]))"

subsection \<open>Prohibition\<close>

definition prohibition_for ::
  "env \<Rightarrow> chart \<Rightarrow> planet \<Rightarrow> planet \<Rightarrow> int \<Rightarrow> planet \<Rightarrow> planet \<Rightarrow> real \<Rightarrow> planet
   \<Rightarrow> perfection_event list" where
  "prohibition_for E ch querent quesited window_days applier receiver threshold p =
     (if p = querent \<or> p = quesited then []
      else
        case find_applying_aspect E ch p receiver window_days of
          None \<Rightarrow> []
        | Some app \<Rightarrow>
            if \<not> (0 < leg_timing app \<and> leg_timing app < threshold - EPS) then []
            else if \<bar>get_daily_motion (planets ch p)\<bar> \<le> \<bar>get_daily_motion (planets ch receiver)\<bar>
            then []
            else
              let nxt = find_earliest_application E ch p window_days {receiver};
                  hands_off = (case nxt of
                                 None \<Rightarrow> False
                               | Some n \<Rightarrow> \<bar>na_timing n - leg_timing app\<bar> \<le> EPS
                                            \<and> na_target n = applier)
              in if hands_off then []
                 else [(PerfectionEvent PROHIBITION (querent, quesited))
                         \<lparr>mediator := Some p, aspect := Some (leg_aspect app),
                          exact_in_days := Some (leg_timing app), favorable := False,
                          metadata := [(''target'', MPlanet receiver),
                                       (''preempts_in_days'', MNum threshold)]\<rparr>])"

text \<open>
  The sweep over the third bodies once applier, receiver and \<^verbatim>\<open>t_direct\<close> are fixed.
\<close>

definition prohibition_sweep ::
  "env \<Rightarrow> chart \<Rightarrow> planet \<Rightarrow> planet \<Rightarrow> int \<Rightarrow> real option \<Rightarrow> planet \<Rightarrow> planet \<Rightarrow> real
   \<Rightarrow> perfection_event list" where
  "prohibition_sweep E ch querent quesited window_days earliest_positive applier receiver t_direct =
     (let threshold = (case earliest_positive of
                         None \<Rightarrow> t_direct
                       | Some ept \<Rightarrow> if ept < t_direct then ept else t_direct)
      in concat (map (prohibition_for E ch querent quesited window_days applier receiver threshold)
                   classical))"

definition detect_prohibition_events ::
  "env \<Rightarrow> chart \<Rightarrow> planet \<Rightarrow> planet \<Rightarrow> int \<Rightarrow> real option \<Rightarrow> perfection_event list" where
  "detect_prohibition_events E ch querent quesited window_days earliest_positive =
     (case find_applying_aspect E ch querent quesited window_days of
        None \<Rightarrow>
          (case find_applying_aspect E ch quesited querent window_days of
             None \<Rightarrow> []
           | Some app_e_to_q \<Rightarrow>
               prohibition_sweep E ch querent quesited window_days earliest_positive
                 quesited querent (leg_timing app_e_to_q))
      | Some app_q_to_e \<Rightarrow>
          (case find_applying_aspect E ch quesited querent window_days of
             None \<Rightarrow>
               prohibition_sweep E ch querent quesited window_days earliest_positive
                 querent quesited (leg_timing app_q_to_e)
           | Some app_e_to_q \<Rightarrow>
               if leg_timing app_q_to_e \<le> leg_timing app_e_to_q
               then prohibition_sweep E ch querent quesited window_days earliest_positive
                      querent quesited (leg_timing app_q_to_e)
               else prohibition_sweep E ch querent quesited window_days earliest_positive
                      quesited querent (leg_timing app_e_to_q)))"

subsection \<open>Denials: refranation, abscission, frustration\<close>

definition refranation_event ::
  "env \<Rightarrow> planet \<Rightarrow> planet \<Rightarrow> aspect \<Rightarrow> real \<Rightarrow> planet \<Rightarrow> perfection_event" where
  "refranation_event E querent quesited a timing refraning =
     (PerfectionEvent REFRANATION (querent, quesited))
       \<lparr>aspect := Some a, exact_in_days := Some timing, favorable := False,
        confidence := Some (conf_refranation (cfg E)),
        metadata := [(''refraning_planet'', MPlanet refraning)]\<rparr>"

text \<open>
  One aspect of the refranation loop; \<^verbatim>\<open>if timing:\<close> is truthiness, and the two
  positions are then read by subscript.
\<close>

definition refranation_for ::
  "env \<Rightarrow> chart \<Rightarrow> planet \<Rightarrow> planet \<Rightarrow> aspect \<Rightarrow> py_error + perfection_event list" where
  "refranation_for E ch querent quesited a =
     (case when_exact_in_days E querent quesited a ch of
        None \<Rightarrow> Inr []
      | Some timing \<Rightarrow>
          if timing = 0 then Inr []
          else
            (case planets_at ch querent of
               Inl err \<Rightarrow> Inl err
             | Inr querent_pos \<Rightarrow>
                 (case planets_at ch quesited of
                    Inl err \<Rightarrow> Inl err
                  | Inr quesited_pos \<Rightarrow>
                      Inr ((if get_daily_motion (Some querent_pos) > 0
                               \<and> will_station_before ch querent timing
                            then [refranation_event E querent quesited a timing querent] else [])
                           @ (if get_daily_motion (Some quesited_pos) > 0
                                 \<and> will_station_before ch quesited timing
                              then [refranation_event E querent quesited a timing quesited]
                              else [])))))"

definition abscission_for ::
  "env \<Rightarrow> chart \<Rightarrow> planet \<Rightarrow> planet \<Rightarrow> int \<Rightarrow> route \<Rightarrow> planet \<Rightarrow> perfection_event list" where
  "abscission_for E ch querent quesited window_days r p =
     (if p = querent \<or> p = quesited then []
      else
        case find_applying_aspect E ch p (route_applier r) window_days of
          None \<Rightarrow> []
        | Some app \<Rightarrow>
            if \<not> (0 < leg_timing app \<and> leg_timing app < route_timing r - EPS) then []
            else if \<bar>get_daily_motion (planets ch p)\<bar>
                      \<le> \<bar>get_daily_motion (planets ch (route_applier r))\<bar>
            then []
            else
              let nxt = find_earliest_application E ch p window_days {route_applier r};
                  hands_off = (case nxt of
                                 None \<Rightarrow> False
                               | Some n \<Rightarrow> \<bar>na_timing n - leg_timing app\<bar> \<le> EPS
                                            \<and> na_target n = route_receiver r)
              in if hands_off then []
                 else [(PerfectionEvent ABSCISSION (querent, quesited))
                         \<lparr>mediator := Some p, aspect := Some (leg_aspect app),
                          exact_in_days := Some (leg_timing app), favorable := False,
                          confidence := Some (conf_abscission (cfg E)),
                          metadata := [(''applier'', MPlanet (route_applier r)),
                                       (''receiver'', MPlanet (route_receiver r)),
                                       (''interceptor'', MPlanet p)]\<rparr>])"

definition detect_abscission_events ::
  "env \<Rightarrow> chart \<Rightarrow> planet \<Rightarrow> planet \<Rightarrow> int \<Rightarrow> perfection_event list" where
  "detect_abscission_events E ch querent quesited window_days =
     (case current_direct_route E ch querent quesited window_days of
        None \<Rightarrow> []
      | Some r \<Rightarrow> concat (map (abscission_for E ch querent quesited window_days r) classical))"

definition detect_frustration_events ::
  "env \<Rightarrow> chart \<Rightarrow> planet \<Rightarrow> planet \<Rightarrow> int \<Rightarrow> perfection_event list" where
  "detect_frustration_events E ch querent quesited window_days =
     (case current_direct_route E ch querent quesited window_days of
        None \<Rightarrow> []
      | Some r \<Rightarrow>
          (case find_earliest_application E ch (route_applier r) window_days {} of
             None \<Rightarrow> []
           | Some nxt \<Rightarrow>
               if na_target nxt = route_receiver r \<or> na_timing nxt \<ge> route_timing r - EPS then []
               else
                 let chain = find_applying_aspect E ch (na_target nxt) (route_receiver r) window_days;
                     chained = (case chain of
                                  None \<Rightarrow> False
                                | Some c \<Rightarrow> 0 < leg_timing c \<and> leg_timing c \<le> na_timing nxt + EPS)
                 in if chained then []
                    else [(PerfectionEvent FRUSTRATION (querent, quesited))
                            \<lparr>mediator := Some (na_target nxt), aspect := Some (na_aspect nxt),
                             exact_in_days := Some (na_timing nxt), favorable := False,
                             confidence := Some (conf_frustration (cfg E)),
                             metadata := [(''applier'', MPlanet (route_applier r)),
                                          (''receiver'', MPlanet (route_receiver r))]\<rparr>]))"

definition detect_denial_events ::
  "env \<Rightarrow> chart \<Rightarrow> planet \<Rightarrow> planet \<Rightarrow> int \<Rightarrow> py_error + perfection_event list" where
  "detect_denial_events E ch querent quesited window_days =
     (case for_each (refranation_for E ch querent quesited) all_aspects [] of
        Inl err \<Rightarrow> Inl err
      | Inr events \<Rightarrow>
          Inr (events
               @ detect_abscission_events E ch querent quesited window_days
               @ detect_frustration_events E ch querent quesited window_days))"

subsection \<open>\<^verbatim>\<open>_deconflict_same_time\<close> and \<^verbatim>\<open>detect_all_events\<close>\<close>

definition deconflict_same_time :: "perfection_event list \<Rightarrow> perfection_event list" where
  "deconflict_same_time events =
     (let positives = filter (\<lambda>e. event_type e \<in> positive_types \<and> exact_in_days e \<noteq> None) events;
          coincides_with_positive =
            (\<lambda>e. case exact_in_days e of
                    None \<Rightarrow> False
                  | Some t \<Rightarrow> list_ex (\<lambda>p. \<bar>getattr_or (exact_in_days p) 0 - t\<bar> \<le> EPS) positives)
      in filter (\<lambda>e. \<not> (event_type e \<in> {PROHIBITION, ABSCISSION, REFRANATION, FRUSTRATION}
                          \<and> coincides_with_positive e)) events)"

text \<open>
  \<^verbatim>\<open>min((e.exact_in_days for e in events if ...), default=None)\<close> over the positive
  events found so far.
\<close>

definition earliest_positive_time :: "perfection_event list \<Rightarrow> real option" where
  "earliest_positive_time events =
     py_min_by (\<lambda>t. t)
       (concat (map (\<lambda>e. case exact_in_days e of
                            None \<Rightarrow> []
                          | Some t \<Rightarrow> if event_type e \<in> positive_types then [t] else [])
                  events))"

definition identity_event :: "env \<Rightarrow> planet \<Rightarrow> planet \<Rightarrow> perfection_event" where
  "identity_event E querent quesited =
     (PerfectionEvent DIRECT (querent, quesited))
       \<lparr>aspect := Some CONJUNCTION, exact_in_days := Some 0, favorable := True,
        confidence := Some (conf_same_ruler (cfg E))\<rparr>"

definition detect_all_events ::
  "env \<Rightarrow> chart \<Rightarrow> planet \<Rightarrow> planet \<Rightarrow> int \<Rightarrow> py_error + perfection_event list" where
  "detect_all_events E ch querent quesited window_days =
     (if querent = quesited
      then Inr (sort_events_by_priority (deduplicate_events
                  (detect_house_placement_events ch querent quesited
                   @ [identity_event E querent quesited])))
      else
        case detect_direct_events E ch querent quesited window_days of
          Inl err \<Rightarrow> Inl err
        | Inr direct_events \<Rightarrow>
            let house_events = detect_house_placement_events ch querent quesited;
                translation_events = detect_translation_events E ch querent quesited window_days
            in case detect_collection_events E ch querent quesited window_days of
                 Inl err \<Rightarrow> Inl err
               | Inr collection_events \<Rightarrow>
                   let events = direct_events @ house_events @ translation_events
                                @ collection_events;
                       prohibition_events =
                         detect_prohibition_events E ch querent quesited window_days
                           (earliest_positive_time events)
                   in case detect_denial_events E ch querent quesited window_days of
                        Inl err \<Rightarrow> Inl err
                      | Inr denial_events \<Rightarrow>
                          Inr (sort_events_by_priority (deconflict_same_time (deduplicate_events
                                 (events @ prohibition_events @ denial_events)))))"

section \<open>Concrete inputs\<close>

definition ex_direct_at :: "real \<Rightarrow> perfection_event" where
  "ex_direct_at t =
     (PerfectionEvent DIRECT (SUN, MARS))\<lparr>aspect := Some TRINE, exact_in_days := Some t\<rparr>"

definition ex_direct_indeterminate :: perfection_event where
  "ex_direct_indeterminate = (PerfectionEvent DIRECT (SUN, MARS))\<lparr>aspect := Some TRINE\<rparr>"

definition ex_prohibition_at :: "real \<Rightarrow> perfection_event" where
  "ex_prohibition_at t =
     (PerfectionEvent PROHIBITION (SUN, MARS))
       \<lparr>mediator := Some MOON, aspect := Some SQUARE, exact_in_days := Some t,
        favorable := False\<rparr>"

definition ex_house_placement :: perfection_event where
  "ex_house_placement =
     (PerfectionEvent HOUSE_PLACEMENT (SUN, MARS))
       \<lparr>exact_in_days := Some 0, confidence := Some 75,
        metadata := [(''placement_type'', MStr ''querent_in_quesited_house'')]\<rparr>"

definition ex_bare :: perfection_event where
  "ex_bare =
     (PerfectionEvent ABSCISSION (SUN, MARS))
       \<lparr>mediator := Some VENUS, aspect := Some SEXTILE, exact_in_days := Some 3\<rparr>"

definition ex_rich :: perfection_event where
  "ex_rich =
     ex_bare\<lparr>metadata := [(''collector'', MPlanet SATURN), (''interceptor'', MPlanet VENUS)]\<rparr>"

text \<open>
  Modelled from the spec: the helper \<^verbatim>\<open>days_to_sign_exit\<close> is not part of the sources.
  The spec: "compute each body's days-to-current-sign-boundary-exit from its rate". A sign
  spans 30 degrees; a direct body leaves at the end of its sign, a retrograde one at
  the start, a body at rest never. Used only to run the model on the charts below.
\<close>

definition sign_exit_days :: "real \<Rightarrow> real \<Rightarrow> real option" where
  "sign_exit_days lon sp =
     (if sp = 0 then None
      else if sp > 0 then Some ((30 - py_mod lon 30) / sp)
      else Some (py_mod lon 30 / (- sp)))"

definition no_reception :: reception where
  "no_reception = \<lparr>rec_type = Some ''none'', rec_mutual = Some ''none'', rec_one_way = Some []\<rparr>"

text \<open>
  A configuration with the defaults the source names (sign guard on, speed advantage
  required, look-back 7 days, abscission 70, frustration 65, same ruler 80, penalties 15
  and 20, bonuses 15 and 10), the degree limits of the repository's tests (10 and 15),
  and sample base confidences.
\<close>

definition ex_config :: config where
  "ex_config =
     \<lparr>allow_out_of_sign_hits = False, perfection_allow_out_of_sign = False,
      perfection_require_in_sign = True, translation_require_speed_advantage = True,
      translation_max_lookback_days = 7, translation_max_separation_deg = 10,
      translation_max_application_deg = 15,
      conf_same_ruler = 80, conf_direct_basic = 80, conf_hard_square_penalty = 15,
      conf_hard_opposition_penalty = 20, conf_mutual_rulership_bonus = 15,
      conf_mutual_exaltation_bonus = 10, conf_translation_of_light = 75,
      conf_collection_of_light = 70, conf_abscission = 70, conf_refranation = 70,
      conf_frustration = 65\<rparr>"

definition ex_env :: env where
  "ex_env =
     \<lparr>cfg = ex_config, days_to_sign_exit = sign_exit_days,
      calculate_comprehensive_reception = (\<lambda>ch p1 p2. no_reception)\<rparr>"

definition at_pos :: "real \<Rightarrow> real \<Rightarrow> int \<Rightarrow> planet_pos" where
  "at_pos lon sp h =
     \<lparr>longitude = Some lon, daily_motion = None, speed = Some sp, house = Some h,
      solar_condition = NoAttr\<rparr>"

text \<open>
  Sun at 100 degrees, Moon at 111 degrees (11 degrees past its conjunction with the
  Sun, 9 degrees before the end of its sign) and Saturn at a longitude to choose.
\<close>

definition ex_chart_moon_saturn :: "real \<Rightarrow> chart" where
  "ex_chart_moon_saturn saturn_lon =
     \<lparr>planets = [SUN \<mapsto> at_pos 100 1 4, MOON \<mapsto> at_pos 111 13 4,
                 SATURN \<mapsto> at_pos saturn_lon (1 / 10) 6],
      significators = None\<rparr>"

text \<open>
  A chart of all seven bodies: Mercury and Venus both apply to Saturn (sextile in 40/29
  days, square in 34/23 days); the other four stand at the very end of their signs.
\<close>

definition ex_chart_collection :: chart where
  "ex_chart_collection =
     \<lparr>planets = [SUN \<mapsto> at_pos (17999 / 100) 1 10, MOON \<mapsto> at_pos (599 / 10) 13 6,
                 MERCURY \<mapsto> at_pos 10 (3 / 2) 7, VENUS \<mapsto> at_pos (3403 / 10) (6 / 5) 3,
                 MARS \<mapsto> at_pos (23999 / 100) (3 / 5) 12,
                 JUPITER \<mapsto> at_pos (29999 / 100) (1 / 10) 2,
                 SATURN \<mapsto> at_pos 72 (1 / 20) 9],
      significators = Some [(''querent_house'', 1), (''quesited_house'', 7)]\<rparr>"

text \<open>The same chart with no position for the Sun.\<close>

definition ex_chart_no_sun :: chart where
  "ex_chart_no_sun = ex_chart_collection\<lparr>planets := (planets ex_chart_collection)(SUN := None)\<rparr>"

text \<open>
  Moon at 70 degrees (20 degrees before the end of its sign) with a daily motion of 13
  degrees and the attribute \<^verbatim>\<open>speed\<close> as given (absent, or another number than the
  daily motion); Saturn at 162.25 degrees, the Moon's sextile to it 32.25 degrees ahead.
\<close>

definition ex_chart_two_rates :: "real option \<Rightarrow> chart" where
  "ex_chart_two_rates moon_speed =
     \<lparr>planets = [MOON \<mapsto> \<lparr>longitude = Some 70, daily_motion = Some 13, speed = moon_speed,
                            house = Some 4, solar_condition = NoAttr\<rparr>,
                 SATURN \<mapsto> at_pos (16225 / 100) (1 / 10) 6],
      significators = None\<rparr>"

section \<open>Deduplication\<close>

lemma map_key_replace_existing:
  "map event_key (replace_existing ev xs) = map event_key xs"
  by (induction xs) auto

lemma filter_replace_existing_other:
  "event_key ev \<noteq> k \<Longrightarrow>
   filter (\<lambda>x. event_key x = k) (replace_existing ev xs) = filter (\<lambda>x. event_key x = k) xs"
  by (induction xs) auto

lemma filter_replace_existing_same:
  "distinct (map event_key xs) \<Longrightarrow> filter (\<lambda>x. event_key x = event_key ev) xs = [y] \<Longrightarrow>
   filter (\<lambda>x. event_key x = event_key ev) (replace_existing ev xs) =
     [if metadata_len ev > metadata_len y then ev else y]"
proof (induction xs)
  case Nil
  then show ?case by simp
next
  case (Cons a xs)
  show ?case
  proof (cases "event_key a = event_key ev")
    case True
    with Cons.prems have "filter (\<lambda>x. event_key x = event_key ev) xs = []"
      by (auto simp: filter_empty_conv image_iff)
    with True Cons.prems show ?thesis by auto
  next
    case False
    with Cons show ?thesis by auto
  qed
qed

lemma dedup_inv_append:
  "dedup_inv seen uniq \<Longrightarrow> event_key ev \<notin> seen \<Longrightarrow>
   dedup_inv (insert (event_key ev) seen) (uniq @ [ev])"
  by (auto simp: dedup_inv_def)

lemma dedup_inv_replace:
  "dedup_inv seen uniq \<Longrightarrow> dedup_inv seen (replace_existing ev uniq)"
  unfolding dedup_inv_def
  by (metis map_key_replace_existing set_map)

lemma dedup_loop_keys:
  "dedup_inv seen uniq \<Longrightarrow>
   distinct (map event_key (dedup_loop seen uniq evs)) \<and>
   event_key ` set (dedup_loop seen uniq evs) = seen \<union> event_key ` set evs"
proof (induction evs arbitrary: seen uniq)
  case Nil
  then show ?case by (simp add: dedup_inv_def)
next
  case (Cons ev evs)
  show ?case
  proof (cases "event_key ev \<in> seen")
    case True
    from Cons.IH [OF dedup_inv_replace [OF Cons.prems]] True show ?thesis by auto
  next
    case False
    from Cons.IH [OF dedup_inv_append [OF Cons.prems False]] False show ?thesis by auto
  qed
qed

lemma distinct_map_filter_le1:
  "distinct (map f xs) \<Longrightarrow> length (filter (\<lambda>x. f x = k) xs) \<le> 1"
  by (induction xs) (auto simp: filter_empty_conv image_iff)

lemma dedup_keys:
  "distinct (map event_key (deduplicate_events evs))"
  "event_key ` set (deduplicate_events evs) = event_key ` set evs"
proof -
  have inv: "dedup_inv {} []" by (simp add: dedup_inv_def)
  from dedup_loop_keys [OF inv, of evs]
  show "distinct (map event_key (deduplicate_events evs))"
    and "event_key ` set (deduplicate_events evs) = event_key ` set evs"
    by (simp_all add: deduplicate_events_def)
qed

lemma dedup_one_per_key:
  assumes "k \<in> event_key ` set evs"
  shows "length (filter (\<lambda>x. event_key x = k) (deduplicate_events evs)) = 1"
proof -
  from assms have "k \<in> event_key ` set (deduplicate_events evs)"
    by (simp add: dedup_keys(2))
  then have "filter (\<lambda>x. event_key x = k) (deduplicate_events evs) \<noteq> []"
    by (auto simp: filter_empty_conv)
  with distinct_map_filter_le1 [OF dedup_keys(1), of k evs] show ?thesis
    by (cases "filter (\<lambda>x. event_key x = k) (deduplicate_events evs)") auto
qed

lemma filter_key_nonempty_iff:
  "filter (\<lambda>x. event_key x = k) xs \<noteq> [] \<longleftrightarrow> k \<in> event_key ` set xs"
  by (auto simp: filter_empty_conv)

text \<open>
  Two events \<open>a\<close> and \<open>b\<close> share the key \<open>k\<close>, \<open>b\<close> has more metadata entries, and
  every event with the key \<open>k\<close> is one of them: at every point of the loop the one kept
  event with key \<open>k\<close> is \<open>b\<close> as soon as \<open>b\<close> has been met.
\<close>

lemma dedup_loop_two:
  assumes ab: "event_key a = k" "event_key b = k" "metadata_len a < metadata_len b"
  shows "dedup_inv seen uniq \<Longrightarrow>
     filter (\<lambda>x. event_key x = k) uniq \<in> {[], [a], [b]} \<Longrightarrow>
     (\<forall>x\<in>set evs. event_key x = k \<longrightarrow> x = a \<or> x = b) \<Longrightarrow>
     filter (\<lambda>x. event_key x = k) (dedup_loop seen uniq evs) =
       (if filter (\<lambda>x. event_key x = k) uniq = [b] \<or> b \<in> set evs then [b]
        else if filter (\<lambda>x. event_key x = k) uniq = [a] \<or> a \<in> set evs then [a]
        else [])"
proof (induction evs arbitrary: seen uniq)
  case Nil
  then show ?case by auto
next
  case (Cons ev evs)
  let ?F = "filter (\<lambda>x. event_key x = k) uniq"
  from ab have neq: "a \<noteq> b" by auto
  have rest: "\<forall>x\<in>set evs. event_key x = k \<longrightarrow> x = a \<or> x = b"
    using Cons.prems(3) by simp
  show ?case
  proof (cases "event_key ev = k")
    case False
    then have ev: "ev \<noteq> a" "ev \<noteq> b" using ab by auto
    show ?thesis
    proof (cases "event_key ev \<in> seen")
      case True
      have F': "filter (\<lambda>x. event_key x = k) (replace_existing ev uniq) = ?F"
        using False by (rule filter_replace_existing_other)
      from Cons.IH [OF dedup_inv_replace [OF Cons.prems(1)], of ev] F' Cons.prems(2) rest True ev
      show ?thesis by auto
    next
      case notin: False
      have F': "filter (\<lambda>x. event_key x = k) (uniq @ [ev]) = ?F"
        using False by simp
      from Cons.IH [OF dedup_inv_append [OF Cons.prems(1) notin]] F' Cons.prems(2) rest notin ev
      show ?thesis by auto
    qed
  next
    case key: True
    then have ev: "ev = a \<or> ev = b" using Cons.prems(3) by simp
    show ?thesis
    proof (cases "event_key ev \<in> seen")
      case True
      then have "?F \<noteq> []"
        using Cons.prems(1) key by (simp add: filter_key_nonempty_iff dedup_inv_def)
      then obtain y where y: "?F = [y]" "y = a \<or> y = b"
        using Cons.prems(2) by auto
      have d: "distinct (map event_key uniq)"
        using Cons.prems(1) by (simp add: dedup_inv_def)
      have F': "filter (\<lambda>x. event_key x = k) (replace_existing ev uniq) =
          [if metadata_len ev > metadata_len y then ev else y]"
        using filter_replace_existing_same [OF d, of ev y] y(1) key by simp
      have F'in: "filter (\<lambda>x. event_key x = k) (replace_existing ev uniq) \<in> {[], [a], [b]}"
        using F' ev y(2) by auto
      from Cons.IH [OF dedup_inv_replace [OF Cons.prems(1)] F'in rest] F' True ev y ab(3) neq
      show ?thesis by (auto split: if_splits)
    next
      case notin: False
      then have empty: "?F = []"
        using Cons.prems(1) key filter_key_nonempty_iff [of k uniq] by (auto simp: dedup_inv_def)
      then have F': "filter (\<lambda>x. event_key x = k) (uniq @ [ev]) = [ev]"
        using key by simp
      have F'in: "filter (\<lambda>x. event_key x = k) (uniq @ [ev]) \<in> {[], [a], [b]}"
        using F' ev by auto
      from Cons.IH [OF dedup_inv_append [OF Cons.prems(1) notin] F'in rest] F' notin ev empty neq
      show ?thesis by (auto split: if_splits)
    qed
  qed
qed

text \<open>
  Claim C8. In an event list where two events \<open>a\<close> and \<open>b\<close> have the same
  \<open>event_key\<close> and \<open>b\<close> has more metadata entries than \<open>a\<close> (no third event holding
  that key), \<open>_deduplicate_events\<close> returns a list with exactly one event of that key,
  and it is \<open>b\<close>, wherever the two stand in the list and however often they occur.
\<close>

theorem dedup_keeps_richer_duplicate:
  assumes "a \<in> set evs" and "b \<in> set evs"
    and "event_key a = event_key b"
    and "metadata_len a < metadata_len b"
    and "\<forall>x\<in>set evs. event_key x = event_key b \<longrightarrow> x = a \<or> x = b"
  shows "filter (\<lambda>x. event_key x = event_key b) (deduplicate_events evs) = [b]"
proof -
  have inv: "dedup_inv {} []" by (simp add: dedup_inv_def)
  from dedup_loop_two [OF assms(3) refl assms(4) inv _ assms(5)] assms(2)
  show ?thesis by (simp add: deduplicate_events_def)
qed

theorem dedup_keeps_richer_duplicate_witness:
  "filter (\<lambda>x. event_key x = event_key ex_rich)
     (deduplicate_events [ex_direct_at 5, ex_bare, ex_rich]) = [ex_rich]
   \<and> filter (\<lambda>x. event_key x = event_key ex_rich)
     (deduplicate_events [ex_rich, ex_direct_at 5, ex_bare]) = [ex_rich]"
  using dedup_keeps_richer_duplicate [of ex_bare "[ex_direct_at 5, ex_bare, ex_rich]" ex_rich]
    dedup_keeps_richer_duplicate [of ex_bare "[ex_rich, ex_direct_at 5, ex_bare]" ex_rich]
  by (simp add: PerfectionEvent_def ex_direct_at_def ex_bare_def ex_rich_def event_key_def
      metadata_len_def)

text \<open>
  Claim C10. \<open>event_key\<close> renders an absent timing and a timing of exactly 0 alike:
  two events equal in family, pair, mediator and aspect, one with timing \<open>None\<close> and
  one with timing 0, have the same key, and \<open>_deduplicate_events\<close> leaves exactly one
  event of that key in any list that contains both.
\<close>

theorem event_key_none_equals_zero:
  assumes "event_type e1 = event_type e2" and "primary_pair e1 = primary_pair e2"
    and "mediator e1 = mediator e2" and "aspect e1 = aspect e2"
    and "exact_in_days e1 = None" and "exact_in_days e2 = Some 0"
  shows "event_key e1 = event_key e2 \<and>
    (\<forall>evs. e1 \<in> set evs \<and> e2 \<in> set evs \<longrightarrow>
       length (filter (\<lambda>x. event_key x = event_key e1) (deduplicate_events evs)) = 1)"
proof -
  have k: "event_key e1 = event_key e2"
    using assms by (simp add: event_key_def timing_key_def)
  show ?thesis
  proof (intro conjI allI impI)
    show "event_key e1 = event_key e2" by (rule k)
  next
    fix evs assume "e1 \<in> set evs \<and> e2 \<in> set evs"
    then have "event_key e1 \<in> event_key ` set evs" by blast
    then show "length (filter (\<lambda>x. event_key x = event_key e1) (deduplicate_events evs)) = 1"
      by (rule dedup_one_per_key)
  qed
qed

theorem event_key_none_equals_zero_witness:
  "event_key ex_direct_indeterminate = event_key (ex_direct_at 0) \<and>
   ex_direct_indeterminate \<noteq> ex_direct_at 0 \<and>
   length (filter (\<lambda>x. event_key x = event_key ex_direct_indeterminate)
     (deduplicate_events [ex_direct_indeterminate, ex_direct_at 0])) = 1"
proof -
  have "event_key ex_direct_indeterminate = event_key (ex_direct_at 0) \<and>
    (\<forall>evs. ex_direct_indeterminate \<in> set evs \<and> ex_direct_at 0 \<in> set evs \<longrightarrow>
       length (filter (\<lambda>x. event_key x = event_key ex_direct_indeterminate)
         (deduplicate_events evs)) = 1)"
    by (rule event_key_none_equals_zero) (simp_all add: PerfectionEvent_def ex_direct_at_def ex_direct_indeterminate_def)
  then have k: "event_key ex_direct_indeterminate = event_key (ex_direct_at 0)"
    and all: "\<forall>evs. ex_direct_indeterminate \<in> set evs \<and> ex_direct_at 0 \<in> set evs \<longrightarrow>
       length (filter (\<lambda>x. event_key x = event_key ex_direct_indeterminate)
         (deduplicate_events evs)) = 1"
    by blast+
  have one: "length (filter (\<lambda>x. event_key x = event_key ex_direct_indeterminate)
         (deduplicate_events [ex_direct_indeterminate, ex_direct_at 0])) = 1"
    using all [rule_format, of "[ex_direct_indeterminate, ex_direct_at 0]"] by simp
  have "ex_direct_indeterminate \<noteq> ex_direct_at 0"
    by (simp add: PerfectionEvent_def ex_direct_at_def ex_direct_indeterminate_def)
  with k one show ?thesis by blast
qed

section \<open>Sorting and selection\<close>

text \<open>
  Claim C1. The claim: with a positive event and a prohibition in the list, the
  prohibition is primary exactly when the earliest prohibition's timing is strictly
  less than the earliest positive's, and the earliest positive is primary otherwise.
  The code compares \<^verbatim>\<open>exact_in_days or float('inf')\<close>, which turns a timing of 0 into
  infinity. Evaluated: a DIRECT event at 0 days loses to a PROHIBITION at 2 days; with
  DIRECT events at 0 and at 5 days the one at 5 counts as the earliest and a PROHIBITION
  at 3 days wins; a PROHIBITION at 0 days loses to a DIRECT event at 1 day.
\<close>

theorem select_primary_zero_timing:
  "select_primary_perfection [ex_direct_at 0, ex_prohibition_at 2] = Some (ex_prohibition_at 2)
   \<and> select_primary_perfection [ex_direct_at 0, ex_direct_at 5, ex_prohibition_at 3]
        = Some (ex_prohibition_at 3)
   \<and> select_primary_perfection [ex_direct_at 1, ex_prohibition_at 0] = Some (ex_direct_at 1)"
  by (simp add: select_primary_perfection_def preempts_def positive_types_def denial_types_def
      earliest_key_def or_inf_def PerfectionEvent_def ex_direct_at_def ex_prohibition_at_def)

text \<open>
  Claim C4. The claim: \<open>_sort_events_by_priority\<close> orders by ascending timing first,
  an absent timing counting as infinity, and an event with a determinate timing, 0
  included, comes before every event with an absent one. The sort key is
  \<^verbatim>\<open>exact_in_days or float('inf')\<close>, so a timing of 0 sorts as infinity. Evaluated: a
  HOUSE_PLACEMENT event at 0 days is put after a DIRECT event at 5 days, and after a
  DIRECT event with no timing.
\<close>

theorem sort_zero_timing_last:
  "sort_events_by_priority [ex_house_placement, ex_direct_at 5]
     = [ex_direct_at 5, ex_house_placement]
   \<and> sort_events_by_priority [ex_house_placement, ex_direct_indeterminate]
        = [ex_direct_indeterminate, ex_house_placement]"
  by (simp add: sort_events_by_priority_def sort_key_fn_def or_inf_def PerfectionEvent_def
      ex_direct_at_def ex_direct_indeterminate_def ex_house_placement_def)

section \<open>The timing kernel\<close>

lemmas timing_defs = when_exact_in_days_def solve_exact_def delta_to_exact_def forward_time_def
  norm180_def py_mod_def aspect_targets_def get_daily_motion_def getattr_or_def
  enforce_sign_guard_def days_to_exit_def exits_before_def

lemmas ex_env_defs = ex_env_def ex_config_def sign_exit_days_def at_pos_def no_reception_def

lemmas detector_defs = find_separating_aspect_def find_applying_aspect_def
  find_earliest_application_def classical_def all_aspects_def applying_leg_def
  separating_leg_def EPS_def

text \<open>
  With any relative motion the solved time is strictly positive: a root that is not
  positive is moved on by \<open>\<lfloor>-t / period\<rfloor> + 1\<close> periods, which is more than \<open>-t\<close>.
\<close>

lemma forward_time_pos:
  assumes "v \<noteq> 0"
  shows "0 < forward_time delta v"
proof (cases "- delta / v \<le> 0")
  case False
  then show ?thesis by (simp add: forward_time_def)
next
  case True
  define t where "t = - delta / v"
  define period where "period = 360 / \<bar>v\<bar>"
  have p: "0 < period" using assms by (simp add: period_def)
  have "(- t) / period < of_int (\<lfloor>(- t) / period\<rfloor> + 1)"
    by linarith
  then have "- t < of_int (\<lfloor>(- t) / period\<rfloor> + 1) * period"
    using pos_divide_less_eq [OF p] by blast
  then have "0 < t + of_int (\<lfloor>(- t) / period\<rfloor> + 1) * period" by linarith
  then show ?thesis
    using True unfolding forward_time_def t_def period_def by (simp add: Let_def)
qed

text \<open>
  Claim C2. For every chart, pair of bodies and aspect (and every configuration and
  sign-exit helper), \<open>when_exact_in_days\<close> returns \<open>None\<close> or a value that is at
  least 0.
\<close>

theorem when_exact_in_days_forward_only:
  "when_exact_in_days E planet_a planet_b a ch = Some t \<Longrightarrow> 0 \<le> t"
  unfolding when_exact_in_days_def solve_exact_def
  by (auto simp: Let_def split: option.splits solved.splits if_splits
      dest!: sym [of "ForwardIn _"] intro: less_imp_le [OF forward_time_pos])

theorem when_exact_in_days_forward_only_witness:
  "when_exact_in_days ex_env MOON SATURN SEXTILE (ex_chart_moon_saturn (17745 / 100)) = Some (1 / 2)
   \<and> (0::real) \<le> 1 / 2"
proof -
  have run: "when_exact_in_days ex_env MOON SATURN SEXTILE (ex_chart_moon_saturn (17745 / 100))
      = Some (1 / 2)"
    by (simp add: timing_defs ex_env_defs ex_chart_moon_saturn_def Let_def)
  from run when_exact_in_days_forward_only [OF run] show ?thesis by blast
qed

text \<open>
  What the guard does: it compares the solved time with the exit times that the helper
  returns for each body's longitude and attribute \<^verbatim>\<open>speed\<close>. With the guard
  enforced, a solved time beyond such an exit time \<open>d\<close> (at least 0) gives \<open>None\<close>.
\<close>

lemma sign_exit_guard_on_speed_attribute:
  assumes "enforce_sign_guard (cfg E)"
    and "planets ch planet_a = Some pos_a" and "planets ch planet_b = Some pos_b"
    and "solved_time (solve_exact pos_a pos_b a) = Some t"
    and "days_to_exit E pos_a = Some d \<or> days_to_exit E pos_b = Some d"
    and "0 \<le> d" and "d < t"
  shows "when_exact_in_days E planet_a planet_b a ch = None"
proof (cases "solve_exact pos_a pos_b a")
  case NoSolution
  with assms(4) show ?thesis by simp
next
  case AlreadyExact
  with assms(4) have "t = 0" by simp
  with assms(6,7) show ?thesis by simp
next
  case (ForwardIn u)
  with assms(4) have "u = t" by simp
  from assms(5,7) have "exits_before (days_to_exit E pos_a) t \<or> exits_before (days_to_exit E pos_b) t"
    by (auto simp: exits_before_def)
  with assms(1-3) ForwardIn \<open>u = t\<close> show ?thesis
    by (simp add: when_exact_in_days_def)
qed

text \<open>
  Claim C3. The claim: with the sign-exit guard enabled, when the solved time \<open>t\<close>
  exceeds either body's days-to-sign-exit, computed from the body's rate,
  \<open>when_exact_in_days\<close> returns \<open>None\<close>. The solver takes each body's rate from
  \<^verbatim>\<open>_get_daily_motion\<close> (\<^verbatim>\<open>daily_motion\<close>, else \<^verbatim>\<open>speed\<close>); the guard hands the helper
  \<^verbatim>\<open>getattr(pos, 'speed', 0.0)\<close>. Evaluated, guard enabled: the Moon at 70 degrees
  moves 13 degrees a day and leaves its sign after 20/13 days; its sextile to Saturn
  is solved at \<open>t = 5/2\<close> days. With a \<^verbatim>\<open>speed\<close> attribute of 1 the guard takes the
  exit to be 20 days away, with no \<^verbatim>\<open>speed\<close> attribute it asks for the exit of a body
  at rest and gets none; both times the function returns 5/2.
\<close>

theorem sign_exit_guard_ignores_daily_motion:
  "enforce_sign_guard (cfg ex_env)
   \<and> get_daily_motion (planets (ex_chart_two_rates (Some 1)) MOON) = 13
   \<and> get_daily_motion (planets (ex_chart_two_rates None) MOON) = 13
   \<and> days_to_sign_exit ex_env 70 13 = Some (20 / 13)
   \<and> when_exact_in_days ex_env MOON SATURN SEXTILE (ex_chart_two_rates (Some 1)) = Some (5 / 2)
   \<and> when_exact_in_days ex_env MOON SATURN SEXTILE (ex_chart_two_rates None) = Some (5 / 2)"
  by (simp add: timing_defs ex_env_defs ex_chart_two_rates_def Let_def)

section \<open>The detectors\<close>

lemma for_each_events:
  "for_each body xs acc = Inr evs \<Longrightarrow> ev \<in> set evs \<Longrightarrow>
   ev \<in> set acc \<or> (\<exists>x\<in>set xs. \<exists>new. body x = Inr new \<and> ev \<in> set new)"
proof (induction xs arbitrary: acc)
  case Nil
  then show ?case by simp
next
  case (Cons x xs)
  from Cons.prems(1) obtain new where new: "body x = Inr new"
    and rest: "for_each body xs (acc @ new) = Inr evs"
    by (auto split: sum.splits)
  from Cons.IH [OF rest Cons.prems(2)] new show ?case by auto
qed

lemma for_each_error:
  "x \<in> set xs \<Longrightarrow> body x = Inl err \<Longrightarrow> \<forall>y\<in>set xs. body y = Inl err \<or> body y = Inr [] \<Longrightarrow>
   for_each body xs acc = Inl err"
proof (induction xs arbitrary: acc)
  case Nil
  then show ?case by simp
next
  case (Cons y ys)
  show ?case
  proof (cases "body y")
    case (Inl e)
    with Cons.prems(3) show ?thesis by auto
  next
    case (Inr new)
    with Cons.prems have "x \<in> set ys" by auto
    from Cons.IH [OF this Cons.prems(2)] Cons.prems(3) Inr show ?thesis by auto
  qed
qed

subsection \<open>Collection\<close>

lemma is_valid_collector_True:
  "is_valid_collector ch c q e = Inr True \<Longrightarrow>
   \<bar>get_daily_motion (planets ch c)\<bar> < \<bar>get_daily_motion (planets ch q)\<bar> \<and>
   \<bar>get_daily_motion (planets ch c)\<bar> < \<bar>get_daily_motion (planets ch e)\<bar>"
  by (auto simp: is_valid_collector_def planets_at_def Let_def split: option.splits sum.splits)

text \<open>
  A COLLECTION event of one iteration names the collector of that iteration, and the
  collector has passed \<open>_is_valid_collector\<close>.
\<close>

lemma collection_for_collection:
  assumes "collection_for E ch q e w c = Inr new" and "ev \<in> set new"
    and "event_type ev = COLLECTION"
  shows "mediator ev = Some c \<and> is_valid_collector ch c q e = Inr True"
  using assms unfolding collection_for_def
  by (auto simp: Let_def collection_abscission_def collection_event_def PerfectionEvent_def
      split: if_splits sum.splits option.splits prod.splits)

text \<open>
  Claim C5. For every chart, querent, quesited and window: when the absolute rate of a
  body \<open>c\<close> is not strictly less than the absolute rates of both significators, no
  event that \<open>_detect_collection_events\<close> returns is a COLLECTION event with \<open>c\<close> as
  its mediator, whatever else holds in the chart.
\<close>

theorem invalid_collector_never_collects:
  assumes "\<not> (\<bar>get_daily_motion (planets ch c)\<bar> < \<bar>get_daily_motion (planets ch querent)\<bar> \<and>
               \<bar>get_daily_motion (planets ch c)\<bar> < \<bar>get_daily_motion (planets ch quesited)\<bar>)"
    and "detect_collection_events E ch querent quesited window_days = Inr events"
  shows "\<forall>ev\<in>set events. \<not> (event_type ev = COLLECTION \<and> mediator ev = Some c)"
proof (intro ballI notI)
  fix ev
  assume ev: "ev \<in> set events" and coll: "event_type ev = COLLECTION \<and> mediator ev = Some c"
  from assms(2) ev have ne: "querent \<noteq> quesited"
    by (auto simp: detect_collection_events_def split: if_splits)
  with assms(2)
  have "for_each (collection_for E ch querent quesited window_days) classical [] = Inr events"
    by (simp add: detect_collection_events_def)
  from for_each_events [OF this ev] obtain x new
    where "collection_for E ch querent quesited window_days x = Inr new" and "ev \<in> set new"
    by auto
  from collection_for_collection [OF this] coll
  have "is_valid_collector ch c querent quesited = Inr True" by auto
  from is_valid_collector_True [OF this] assms(1) show False by blast
qed

theorem invalid_collector_never_collects_witness:
  "detect_collection_events ex_env ex_chart_collection MERCURY VENUS 3 =
     Inr [collection_event ex_env ex_chart_collection MERCURY VENUS SATURN
            (applying_leg SEXTILE (40 / 29) SATURN) (applying_leg SQUARE (34 / 23) SATURN)]
   \<and> \<not> (event_type (collection_event ex_env ex_chart_collection MERCURY VENUS SATURN
            (applying_leg SEXTILE (40 / 29) SATURN) (applying_leg SQUARE (34 / 23) SATURN)) = COLLECTION
        \<and> mediator (collection_event ex_env ex_chart_collection MERCURY VENUS SATURN
            (applying_leg SEXTILE (40 / 29) SATURN) (applying_leg SQUARE (34 / 23) SATURN)) = Some MOON)"
proof -
  have run: "detect_collection_events ex_env ex_chart_collection MERCURY VENUS 3 =
     Inr [collection_event ex_env ex_chart_collection MERCURY VENUS SATURN
            (applying_leg SEXTILE (40 / 29) SATURN) (applying_leg SQUARE (34 / 23) SATURN)]"
    by (simp add: detect_collection_events_def collection_for_def is_valid_collector_def
        planets_at_def detector_defs timing_defs ex_env_defs ex_chart_collection_def Let_def)
  have fast: "\<not> (\<bar>get_daily_motion (planets ex_chart_collection MOON)\<bar>
        < \<bar>get_daily_motion (planets ex_chart_collection MERCURY)\<bar>
      \<and> \<bar>get_daily_motion (planets ex_chart_collection MOON)\<bar>
        < \<bar>get_daily_motion (planets ex_chart_collection VENUS)\<bar>)"
    by (simp add: ex_chart_collection_def get_daily_motion_def at_pos_def)
  from invalid_collector_never_collects [OF fast run] run show ?thesis by simp
qed

subsection \<open>The translation legs\<close>

text \<open>
  Claim C7. The claim: a translation candidate whose separation leg is at exactly the
  configured maximum degree limit is accepted, and one whose separation leg is a degree
  beyond the limit is rejected. The repository's tests set the limit
  (\<^verbatim>\<open>config.translation.max_separation_deg = 10.0\<close>) and pass \<^verbatim>\<open>max_degree\<close> to
  \<^verbatim>\<open>_find_separating_aspect\<close>; the code has no such parameter and reads no such limit.
  Evaluated: the Moon is 11 degrees past its conjunction with the Sun (11/12 of a day
  ago) and applies to Saturn's sextile in half a day; whatever limit \<open>d\<close> is
  configured, 10 degrees included, \<open>_detect_translation_events\<close> returns one
  TRANSLATION event by the Moon.
\<close>

theorem translation_ignores_degree_limit:
  "find_separating_aspect (ex_chart_moon_saturn (17745 / 100)) MOON SUN 30
     = Some (separating_leg CONJUNCTION (- (11 / 12)) SUN)
   \<and> map (\<lambda>e. (event_type e, mediator e, exact_in_days e))
       (detect_translation_events
          (ex_env\<lparr>cfg := ex_config\<lparr>translation_max_separation_deg := d\<rparr>\<rparr>)
          (ex_chart_moon_saturn (17745 / 100)) SUN SATURN 30)
     = [(TRANSLATION, Some MOON, Some (1 / 2))]"
  by (simp add: detect_translation_events_def translation_for_def translation_event_def
      PerfectionEvent_def detector_defs timing_defs ex_env_defs ex_chart_moon_saturn_def Let_def)

subsection \<open>A chart without a significator's position\<close>

lemma when_exact_missing:
  "planets ch a = None \<or> planets ch b = None \<Longrightarrow> when_exact_in_days E a b asp ch = None"
  by (auto simp: when_exact_in_days_def split: option.splits)

lemma detect_direct_missing:
  "planets ch q = None \<or> planets ch e = None \<Longrightarrow> detect_direct_events E ch q e w = Inr []"
  by (simp add: detect_direct_events_def direct_candidates_def when_exact_missing all_aspects_def)

lemma collection_for_missing:
  "planets ch q = None \<or> planets ch e = None \<Longrightarrow>
   collection_for E ch q e w c = (if c = q \<or> c = e then Inr [] else Inl KeyError)"
  by (auto simp: collection_for_def is_valid_collector_def planets_at_def split: option.splits)

lemma third_classical: "\<exists>c\<in>set classical. c \<noteq> q \<and> c \<noteq> e"
proof -
  have "SUN \<noteq> q \<and> SUN \<noteq> e \<or> MOON \<noteq> q \<and> MOON \<noteq> e \<or> MERCURY \<noteq> q \<and> MERCURY \<noteq> e"
    by (cases q; cases e) simp_all
  then show ?thesis by (auto simp: classical_def)
qed

lemma detect_collection_missing:
  assumes "q \<noteq> e" and "planets ch q = None \<or> planets ch e = None"
  shows "detect_collection_events E ch q e w = Inl KeyError"
proof -
  from third_classical obtain c where c: "c \<in> set classical" "c \<noteq> q" "c \<noteq> e" by blast
  have "for_each (collection_for E ch q e w) classical [] = Inl KeyError"
  proof (rule for_each_error [OF c(1)])
    show "collection_for E ch q e w c = Inl KeyError"
      using c assms(2) by (simp add: collection_for_missing)
    show "\<forall>y\<in>set classical. collection_for E ch q e w y = Inl KeyError
        \<or> collection_for E ch q e w y = Inr []"
      using assms(2) by (simp add: collection_for_missing)
  qed
  with assms(1) show ?thesis by (simp add: detect_collection_events_def)
qed

text \<open>
  Claim C9. The claim: when the position of a queried body is missing from
  \<^verbatim>\<open>chart.planets\<close>, every timing and rule function returns indeterminate or empty
  instead of raising, and \<open>detect_all_events\<close> completes without error.
  \<open>when_exact_in_days\<close> does (\<open>when_exact_missing\<close>), reading positions with
  \<^verbatim>\<open>.get\<close>; \<open>_is_valid_collector\<close> reads them by subscript. Proved: for every chart
  that lacks the position of the querent or of the quesited, the two being different
  bodies, \<open>_detect_collection_events\<close> raises \<^verbatim>\<open>KeyError\<close>, and so does
  \<open>detect_all_events\<close>, which calls it outside any \<^verbatim>\<open>try\<close>.
\<close>

theorem pipeline_raises_on_missing_significator:
  assumes "querent \<noteq> quesited"
    and "planets ch querent = None \<or> planets ch quesited = None"
  shows "detect_collection_events E ch querent quesited window_days = Inl KeyError
    \<and> detect_all_events E ch querent quesited window_days = Inl KeyError"
  using assms
  by (simp add: detect_all_events_def detect_direct_missing detect_collection_missing Let_def)

theorem pipeline_raises_on_missing_significator_witness:
  "planets ex_chart_no_sun SUN = None
   \<and> when_exact_in_days ex_env SUN MOON CONJUNCTION ex_chart_no_sun = None
   \<and> is_valid_collector ex_chart_no_sun MERCURY SUN MOON = Inl KeyError
   \<and> detect_collection_events ex_env ex_chart_no_sun SUN MOON 30 = Inl KeyError
   \<and> detect_all_events ex_env ex_chart_no_sun SUN MOON 30 = Inl KeyError"
proof -
  have missing: "planets ex_chart_no_sun SUN = None"
    by (simp add: ex_chart_no_sun_def)
  have "is_valid_collector ex_chart_no_sun MERCURY SUN MOON = Inl KeyError"
    by (simp add: is_valid_collector_def planets_at_def ex_chart_no_sun_def ex_chart_collection_def)
  moreover have "when_exact_in_days ex_env SUN MOON CONJUNCTION ex_chart_no_sun = None"
    using missing by (simp add: when_exact_in_days_def)
  moreover have "SUN \<noteq> MOON" by simp
  note pipeline_raises_on_missing_significator [OF this disjI1 [OF missing], of ex_env 30]
  ultimately show ?thesis using missing by simp
qed

subsection \<open>The identity case\<close>

lemma set_replace_existing_subset:
  "set (replace_existing ev xs) \<subseteq> insert ev (set xs)"
  by (induction xs) auto

lemma set_dedup_loop_subset:
  "set (dedup_loop seen uniq evs) \<subseteq> set uniq \<union> set evs"
proof (induction evs arbitrary: seen uniq)
  case Nil
  then show ?case by simp
next
  case (Cons ev evs)
  show ?case
  proof (cases "event_key ev \<in> seen")
    case True
    with Cons.IH [of seen "replace_existing ev uniq"] set_replace_existing_subset [of ev uniq]
    show ?thesis by auto
  next
    case False
    with Cons.IH [of "insert (event_key ev) seen" "uniq @ [ev]"] show ?thesis by auto
  qed
qed

lemma set_dedup_subset: "set (deduplicate_events evs) \<subseteq> set evs"
  using set_dedup_loop_subset [of "{}" "[]" evs] by (simp add: deduplicate_events_def)

lemma house_placement_type:
  "ev \<in> set (detect_house_placement_events ch q e) \<Longrightarrow> event_type ev = HOUSE_PLACEMENT"
  by (auto simp: detect_house_placement_events_def house_placement_event_def PerfectionEvent_def
      Let_def split: option.splits if_splits)

lemma identity_event_type: "event_type (identity_event E p p) = DIRECT"
  by (simp add: identity_event_def PerfectionEvent_def)

lemma filter_eq_singleton:
  assumes "distinct (map f xs)" and "x \<in> set xs" and "\<forall>y\<in>set xs. P y \<longrightarrow> y = x" and "P x"
  shows "filter P xs = [x]"
  using assms(1-3)
proof (induction xs)
  case Nil
  then show ?case by simp
next
  case (Cons a xs)
  have d: "distinct (map f xs)" and fa: "f a \<notin> f ` set xs"
    using Cons.prems(1) by simp_all
  have all: "\<forall>y\<in>set xs. P y \<longrightarrow> y = x"
    using Cons.prems(3) by simp
  show ?case
  proof (cases "a = x")
    case True
    with fa have "x \<notin> set xs" by blast
    with all have "filter P xs = []" by (simp add: filter_empty_conv) blast
    with True assms(4) show ?thesis by simp
  next
    case False
    with Cons.prems(2) have mem: "x \<in> set xs" by simp
    from False Cons.prems(3) have "\<not> P a" by auto
    with Cons.IH [OF d mem all] show ?thesis by simp
  qed
qed

text \<open>
  Claim C6. For every chart and body \<open>p\<close>, \<open>detect_all_events\<close> with querent and
  quesited both \<open>p\<close> returns a list with exactly one DIRECT event; that event has
  timing 0, the conjunction aspect and is favorable; and the list holds no TRANSLATION,
  COLLECTION or PROHIBITION event (the branch returns before any of those detections).
\<close>

theorem identity_case_single_direct:
  "\<exists>events. detect_all_events E ch p p window_days = Inr events
     \<and> filter (\<lambda>e. event_type e = DIRECT) events = [identity_event E p p]
     \<and> exact_in_days (identity_event E p p) = Some 0
     \<and> aspect (identity_event E p p) = Some CONJUNCTION
     \<and> favorable (identity_event E p p)
     \<and> filter (\<lambda>e. event_type e \<in> {TRANSLATION, COLLECTION, PROHIBITION}) events = []"
proof -
  let ?raw = "detect_house_placement_events ch p p @ [identity_event E p p]"
  let ?d = "deduplicate_events ?raw"
  have types: "y = identity_event E p p \<or> event_type y = HOUSE_PLACEMENT" if "y \<in> set ?d" for y
  proof -
    from that set_dedup_subset [of ?raw] have "y \<in> set ?raw" by blast
    then show ?thesis using house_placement_type [of y ch p p] by auto
  qed
  have "event_key (identity_event E p p) \<in> event_key ` set ?d"
    by (simp add: dedup_keys(2))
  then obtain y where y: "y \<in> set ?d" "event_key y = event_key (identity_event E p p)"
    by auto
  then have "event_type y = DIRECT"
    by (simp add: event_key_def identity_event_type)
  with types [OF y(1)] have "y = identity_event E p p" by auto
  with y(1) have mem: "identity_event E p p \<in> set ?d" by simp
  have direct: "filter (\<lambda>e. event_type e = DIRECT) ?d = [identity_event E p p]"
  proof (rule filter_eq_singleton [OF dedup_keys(1) mem])
    show "\<forall>y\<in>set ?d. event_type y = DIRECT \<longrightarrow> y = identity_event E p p"
      using types by fastforce
    show "event_type (identity_event E p p) = DIRECT" by (rule identity_event_type)
  qed
  have none: "filter (\<lambda>e. event_type e \<in> {TRANSLATION, COLLECTION, PROHIBITION}) ?d = []"
    unfolding filter_empty_conv using types identity_event_type [of E p] by fastforce
  have run: "detect_all_events E ch p p window_days = Inr (sort_events_by_priority ?d)"
    by (simp add: detect_all_events_def)
  have s1: "filter (\<lambda>e. event_type e = DIRECT) (sort_events_by_priority ?d)
      = [identity_event E p p]"
    unfolding sort_events_by_priority_def filter_sort direct by simp
  have s2: "filter (\<lambda>e. event_type e \<in> {TRANSLATION, COLLECTION, PROHIBITION})
      (sort_events_by_priority ?d) = []"
    unfolding sort_events_by_priority_def filter_sort none by simp
  have fields: "exact_in_days (identity_event E p p) = Some 0"
    "aspect (identity_event E p p) = Some CONJUNCTION"
    "favorable (identity_event E p p)"
    by (simp_all add: identity_event_def PerfectionEvent_def)
  from run s1 s2 fields show ?thesis by blast
qed

theorem identity_case_single_direct_witness:
  "detect_all_events ex_env ex_chart_collection MERCURY MERCURY 30
     = Inr [identity_event ex_env MERCURY MERCURY,
            house_placement_event MERCURY MERCURY ''querent_in_quesited_house'']
   \<and> (\<exists>events. detect_all_events ex_env ex_chart_collection MERCURY MERCURY 30 = Inr events
     \<and> filter (\<lambda>e. event_type e = DIRECT) events = [identity_event ex_env MERCURY MERCURY]
     \<and> exact_in_days (identity_event ex_env MERCURY MERCURY) = Some 0
     \<and> aspect (identity_event ex_env MERCURY MERCURY) = Some CONJUNCTION
     \<and> favorable (identity_event ex_env MERCURY MERCURY)
     \<and> filter (\<lambda>e. event_type e \<in> {TRANSLATION, COLLECTION, PROHIBITION}) events = [])"
proof -
  have "detect_all_events ex_env ex_chart_collection MERCURY MERCURY 30
     = Inr [identity_event ex_env MERCURY MERCURY,
            house_placement_event MERCURY MERCURY ''querent_in_quesited_house'']"
    by (simp add: detect_all_events_def detect_house_placement_events_def
        ex_chart_collection_def at_pos_def getattr_or_def deduplicate_events_def
        sort_events_by_priority_def sort_key_fn_def or_inf_def event_key_def timing_key_def
        identity_event_def house_placement_event_def PerfectionEvent_def)
  with identity_case_single_direct [of ex_env ex_chart_collection MERCURY 30]
  show ?thesis by blast
qed

end
